theory Spec2Isabelle
  imports Complex_Main
begin

section \<open>JavaScript values\<close>

text \<open>
  The dashboard scripts work on values decoded from JSON bodies and on strings read from
  the DOM and from localStorage. A value is one of the JSON shapes, or \<open>undefined\<close> (what
  reading a missing property gives). Numbers are the decoded numeric values; the scripts
  only test their type, compare them with \<open>1\<close> and test them for truthiness (non-zero).
  Strings are lists of code units below 256. An object is the list of its own properties,
  the first binding of a key being the one that is read.
\<close>

datatype jsval =
    JUndefined
  | JNull
  | JBool bool
  | JNum real
  | JStr string
  | JArr "jsval list"
  | JObj "(string \<times> jsval) list"

text \<open>\<open>typeof v\<close>.\<close>

fun typeof :: "jsval \<Rightarrow> string" where
  "typeof JUndefined = ''undefined''"
| "typeof JNull = ''object''"
| "typeof (JBool _) = ''boolean''"
| "typeof (JNum _) = ''number''"
| "typeof (JStr _) = ''string''"
| "typeof (JArr _) = ''object''"
| "typeof (JObj _) = ''object''"

text \<open>Truthiness, as \<open>!v\<close>, \<open>a || b\<close> and \<open>if (v)\<close> test it.\<close>

fun truthy :: "jsval \<Rightarrow> bool" where
  "truthy JUndefined = False"
| "truthy JNull = False"
| "truthy (JBool b) = b"
| "truthy (JNum n) = (n \<noteq> 0)"
| "truthy (JStr s) = (s \<noteq> [])"
| "truthy (JArr _) = True"
| "truthy (JObj _) = True"

text \<open>\<open>v == null\<close>: the value is \<open>null\<close> or \<open>undefined\<close>.\<close>

fun nullish :: "jsval \<Rightarrow> bool" where
  "nullish JUndefined = True"
| "nullish JNull = True"
| "nullish _ = False"

text \<open>\<open>a || b\<close> and \<open>a ?? b\<close>.\<close>

definition js_or :: "jsval \<Rightarrow> jsval \<Rightarrow> jsval" where
  "js_or a b = (if truthy a then a else b)"

definition js_coalesce :: "jsval \<Rightarrow> jsval \<Rightarrow> jsval" where
  "js_coalesce a b = (if nullish a then b else a)"

text \<open>
  Reading a property \<open>v.k\<close> of a value that is neither \<open>null\<close> nor \<open>undefined\<close>, for the
  keys the scripts read (none of them is a built-in property of strings or arrays):
  an object gives the bound value or \<open>undefined\<close>, every other value gives \<open>undefined\<close>.
\<close>

fun property :: "jsval \<Rightarrow> string \<Rightarrow> jsval" where
  "property (JObj kvs) k = (case map_of kvs k of None \<Rightarrow> JUndefined | Some v \<Rightarrow> v)"
| "property _ k = JUndefined"

text \<open>
  Reading a property of any value: on \<open>null\<close> and \<open>undefined\<close> the read throws a
  TypeError, which is the result \<open>None\<close>.
\<close>

definition getProp :: "jsval \<Rightarrow> string \<Rightarrow> jsval option" where
  "getProp v k = (if nullish v then None else Some (property v k))"

text \<open>\<open>Array.isArray(v)\<close>.\<close>

fun isArray :: "jsval \<Rightarrow> bool" where
  "isArray (JArr _) = True"
| "isArray _ = False"

text \<open>
  \<open>s.toLowerCase()\<close> on code units below 256: the letters A to Z and the upper-case
  letters of the Latin-1 block (0xC0 to 0xDE without the multiplication sign 0xD7) move up
  by 32, every other unit stays.
\<close>

definition toLowerCase_char :: "char \<Rightarrow> char" where
  "toLowerCase_char c =
     (let n = (of_char c :: nat)
      in if (65 \<le> n \<and> n \<le> 90) \<or> (192 \<le> n \<and> n \<le> 222 \<and> n \<noteq> 215)
         then char_of (n + 32) else c)"

definition toLowerCase :: "string \<Rightarrow> string" where
  "toLowerCase s = map toLowerCase_char s"

section \<open>Constants of the data main page\<close>

definition SENSOR_COUNT :: nat where
  "SENSOR_COUNT = 5"

definition WINDOW_SIZE :: nat where
  "WINDOW_SIZE = 5"

section \<open>The metric-name mappers\<close>

text \<open>
  \<open>cmpMapMetricToApi(metric)\<close> and \<open>mapMetricToApi(metric)\<close> on a string argument;
  \<open>(metric || '')\<close> is the argument itself, the empty string being the only falsy string.
\<close>

definition cmpMapMetricToApi :: "string \<Rightarrow> string" where
  "cmpMapMetricToApi metric =
     (let m = toLowerCase (if metric \<noteq> [] then metric else [])
      in if m = ''humidity'' then ''hum''
         else if m = ''pm25'' then ''pm2_5''
         else if m = ''pm03'' \<or> m = ''pm3'' then ''pm0_3''
         else if m = ''pm1'' then ''pm1_0''
         else m)"

definition mapMetricToApi :: "string \<Rightarrow> string" where
  "mapMetricToApi metric =
     (let m = toLowerCase (if metric \<noteq> [] then metric else [])
      in if m = ''humidity'' then ''hum''
         else if m = ''pm1'' then ''pm1_0''
         else if m = ''pm25'' then ''pm2_5''
         else if m = ''pm3'' \<or> m = ''pm03'' then ''pm0_3''
         else m)"

section \<open>The Sensor class\<close>

text \<open>
  A sensor: its metadata, the rolling series behind the live charts, the last known
  scalar values and the last raw payload. The series hold the pushed values themselves.
\<close>

record Sensor =
  id_num :: nat
  deviceId :: jsval
  deviceName :: jsval
  classroomNumber :: jsval
  status :: jsval
  timeLabels :: "string list"
  tempData :: "jsval list"
  co2Data :: "jsval list"
  humidityData :: "jsval list"
  pm25Data :: "jsval list"
  pm10Data :: "jsval list"
  pm03Data :: "jsval list"
  pm1Data :: "jsval list"
  tvocData :: "jsval list"
  aqiData :: "jsval list"
  coData :: "jsval list"
  hchoData :: "jsval list"
  humidity :: jsval
  pm25 :: jsval
  pm1_0 :: jsval
  pm1 :: jsval
  tvoc :: jsval
  aqi :: jsval
  co :: jsval
  hcho :: jsval
  pm10 :: jsval
  pm03 :: jsval
  lastRaw :: jsval

text \<open>The constructor.\<close>

definition new_Sensor :: "nat \<Rightarrow> jsval \<Rightarrow> jsval \<Rightarrow> jsval \<Rightarrow> jsval \<Rightarrow> Sensor" where
  "new_Sensor i dId dName room st =
     \<lparr> id_num = i, deviceId = dId, deviceName = dName, classroomNumber = room, status = st,
       timeLabels = [], tempData = [], co2Data = [], humidityData = [], pm25Data = [],
       pm10Data = [], pm03Data = [], pm1Data = [], tvocData = [], aqiData = [],
       coData = [], hchoData = [],
       humidity = JNull, pm25 = JNull, pm1_0 = JNull, pm1 = JNull, tvoc = JNull,
       aqi = JNull, co = JNull, hcho = JNull, pm10 = JNull, pm03 = JNull,
       lastRaw = JNull \<rparr>"

text \<open>\<open>while (arr.length > WINDOW_SIZE) arr.shift();\<close>\<close>

function trim :: "'a list \<Rightarrow> 'a list" where
  "trim arr = (if length arr > WINDOW_SIZE then trim (tl arr) else arr)"
  by pat_completeness auto
termination
  by (relation "measure length") (auto simp: WINDOW_SIZE_def)

declare trim.simps [simp del]

text \<open>\<open>if (typeof v === 'number') arr.push(v);\<close>\<close>

definition push_number :: "jsval \<Rightarrow> jsval list \<Rightarrow> jsval list" where
  "push_number v arr = (if typeof v = ''number'' then arr @ [v] else arr)"

text \<open>
  \<open>if (typeof v === 'number') arr.push(v); else if (typeof w === 'number') arr.push(w);\<close>
\<close>

definition push_number_else :: "jsval \<Rightarrow> jsval \<Rightarrow> jsval list \<Rightarrow> jsval list" where
  "push_number_else v w arr =
     (if typeof v = ''number'' then arr @ [v]
      else if typeof w = ''number'' then arr @ [w]
      else arr)"

text \<open>
  \<open>addMeasurement(raw)\<close>. The label is the wall-clock time formatted by the browser at
  the call, so it is an argument here. The statements follow the source's order: remember
  the payload, push the label, push the numeric fields, refresh the scalars, trim.
\<close>

definition addMeasurement :: "string \<Rightarrow> jsval \<Rightarrow> Sensor \<Rightarrow> Sensor" where
  "addMeasurement label raw this =
     (if \<not> truthy raw \<or> typeof raw \<noteq> ''object'' then this
      else
        let s = this\<lparr> lastRaw := raw \<rparr>;
            s = s\<lparr> timeLabels := timeLabels s @ [label] \<rparr>;
            s = s\<lparr> tempData := push_number (property raw ''temp'') (tempData s) \<rparr>;
            s = s\<lparr> co2Data := push_number (property raw ''co2'') (co2Data s) \<rparr>;
            s = s\<lparr> humidityData := push_number (property raw ''hum'') (humidityData s) \<rparr>;
            s = s\<lparr> pm25Data := push_number (property raw ''pm2_5'') (pm25Data s) \<rparr>;
            s = s\<lparr> pm10Data := push_number (property raw ''pm10'') (pm10Data s) \<rparr>;
            s = s\<lparr> pm03Data :=
                   push_number_else (property raw ''pm_3'') (property raw ''pm0_3'') (pm03Data s) \<rparr>;
            s = s\<lparr> pm1Data :=
                   push_number_else (property raw ''pm1_0'') (property raw ''pm1'') (pm1Data s) \<rparr>;
            s = s\<lparr> tvocData := push_number (property raw ''tvoc'') (tvocData s) \<rparr>;
            s = s\<lparr> aqiData := push_number (property raw ''aqi'') (aqiData s) \<rparr>;
            s = s\<lparr> coData := push_number (property raw ''co'') (coData s) \<rparr>;
            s = s\<lparr> hchoData := push_number (property raw ''hcho'') (hchoData s) \<rparr>;
            s = s\<lparr> humidity := js_coalesce (property raw ''hum'') (humidity s) \<rparr>;
            s = s\<lparr> pm25 := js_coalesce (property raw ''pm2_5'') (pm25 s) \<rparr>;
            s = s\<lparr> pm1_0 := js_coalesce (property raw ''pm1_0'') (pm1_0 s) \<rparr>;
            s = s\<lparr> pm1 :=
                   js_coalesce (js_coalesce (property raw ''pm1_0'') (property raw ''pm1'')) (pm1 s) \<rparr>;
            s = s\<lparr> tvoc := js_coalesce (property raw ''tvoc'') (tvoc s) \<rparr>;
            s = s\<lparr> aqi := js_coalesce (property raw ''aqi'') (aqi s) \<rparr>;
            s = s\<lparr> co := js_coalesce (property raw ''co'') (co s) \<rparr>;
            s = s\<lparr> hcho := js_coalesce (property raw ''hcho'') (hcho s) \<rparr>;
            s = s\<lparr> pm10 := js_coalesce (property raw ''pm10'') (pm10 s) \<rparr>;
            s = s\<lparr> pm03 :=
                   js_coalesce (js_coalesce (property raw ''pm_3'') (property raw ''pm0_3'')) (pm03 s) \<rparr>;
            s = s\<lparr> tempData := trim (tempData s) \<rparr>;
            s = s\<lparr> co2Data := trim (co2Data s) \<rparr>;
            s = s\<lparr> humidityData := trim (humidityData s) \<rparr>;
            s = s\<lparr> pm25Data := trim (pm25Data s) \<rparr>;
            s = s\<lparr> pm10Data := trim (pm10Data s) \<rparr>;
            s = s\<lparr> pm03Data := trim (pm03Data s) \<rparr>;
            s = s\<lparr> pm1Data := trim (pm1Data s) \<rparr>;
            s = s\<lparr> tvocData := trim (tvocData s) \<rparr>;
            s = s\<lparr> aqiData := trim (aqiData s) \<rparr>;
            s = s\<lparr> coData := trim (coData s) \<rparr>;
            s = s\<lparr> hchoData := trim (hchoData s) \<rparr>;
            s = s\<lparr> timeLabels := trim (timeLabels s) \<rparr>
        in s)"

text \<open>
  A sequence of \<open>addMeasurement\<close> calls on one sensor, each call given as the label of
  its moment and its argument.
\<close>

definition addMeasurements :: "Sensor \<Rightarrow> (string \<times> jsval) list \<Rightarrow> Sensor" where
  "addMeasurements this calls = foldl (\<lambda>s c. addMeasurement (fst c) (snd c) s) this calls"

text \<open>
  The argument passes the guard of \<open>addMeasurement\<close>: it is an object in the sense of
  \<open>typeof\<close> (a JSON object or an array) and not \<open>null\<close>.
\<close>

definition is_object :: "jsval \<Rightarrow> bool" where
  "is_object raw = (truthy raw \<and> typeof raw = ''object'')"

text \<open>The most recent \<open>n\<close> elements of a list, oldest first.\<close>

definition last_n :: "nat \<Rightarrow> 'a list \<Rightarrow> 'a list" where
  "last_n n xs = drop (length xs - n) xs"

text \<open>
  The values a sequence of object arguments pushes to a series fed by one payload field,
  and to a series fed by a field with a fallback field.
\<close>

definition pushed :: "string \<Rightarrow> jsval list \<Rightarrow> jsval list" where
  "pushed k raws = filter (\<lambda>v. typeof v = ''number'') (map (\<lambda>raw. property raw k) raws)"

definition pushed_else :: "string \<Rightarrow> string \<Rightarrow> jsval list \<Rightarrow> jsval list" where
  "pushed_else k k' raws =
     concat (map (\<lambda>raw. if typeof (property raw k) = ''number'' then [property raw k]
                         else if typeof (property raw k') = ''number'' then [property raw k']
                         else []) raws)"

section \<open>Host functions, strings and requests\<close>

text \<open>
  The functions of the browser that the scripts call and whose results are not computed
  here: the conversion of a number to a string, \<open>encodeURIComponent\<close>, \<open>parseInt(s, 10)\<close>
  (\<open>None\<close> for \<open>NaN\<close>), and the formatting of a timestamp by
  \<open>new Date(ts).toLocaleString('de-DE', ...)\<close> (\<open>None\<close> when it throws).
\<close>

record builtins =
  numToString :: "real \<Rightarrow> string"
  encodeURIComponent :: "string \<Rightarrow> string"
  parseInt :: "string \<Rightarrow> int option"
  toLocaleString :: "jsval \<Rightarrow> string option"

text \<open>\<open>parts.join(sep)\<close> on strings.\<close>

fun join :: "string \<Rightarrow> string list \<Rightarrow> string" where
  "join sep [] = []"
| "join sep [x] = x"
| "join sep (x # y # ys) = x @ sep @ join sep (y # ys)"

text \<open>
  \<open>String(v)\<close>: an array is its elements joined by commas, \<open>null\<close> and \<open>undefined\<close>
  elements being empty; an object decoded from JSON is \<open>[object Object]\<close>.
\<close>

fun js_String :: "builtins \<Rightarrow> jsval \<Rightarrow> string" where
  "js_String env JUndefined = ''undefined''"
| "js_String env JNull = ''null''"
| "js_String env (JBool b) = (if b then ''true'' else ''false'')"
| "js_String env (JNum n) = numToString env n"
| "js_String env (JStr s) = s"
| "js_String env (JArr vs) = join '','' (map (\<lambda>v. if nullish v then [] else js_String env v) vs)"
| "js_String env (JObj kvs) = ''[object Object]''"

text \<open>
  The outcome of \<open>await fetch(...)\<close> followed by \<open>await res.json()\<close>: the request is
  rejected (network error), or there is a response with its \<open>ok\<close> flag and its body, the
  body being \<open>None\<close> when it is not JSON (\<open>res.json()\<close> rejects).
\<close>

datatype response = Rejected | Response bool "jsval option"

text \<open>What a \<open>try\<close> block can throw.\<close>

datatype js_error = NetworkFailure | HttpError | JsonSyntaxError | TypeError | RenderError

section \<open>localStorage and the admin check\<close>

type_synonym storage = "string \<rightharpoonup> string"

text \<open>
  \<open>__isAdmin()\<close>. The argument is the store behind \<open>localStorage\<close>, or \<open>None\<close> when
  reaching \<open>localStorage\<close> throws (storage blocked by the browser); the \<open>catch\<close> then
  leads to the final \<open>return false\<close>. \<open>getItem\<close> gives \<open>null\<close> for an absent key, and
  \<open>(getItem(k) || '')\<close> is the stored string or the empty string.
\<close>

definition getItem_or_empty :: "storage \<Rightarrow> string \<Rightarrow> string" where
  "getItem_or_empty ls k = (case ls k of None \<Rightarrow> [] | Some v \<Rightarrow> if v \<noteq> [] then v else [])"

definition isAdmin :: "storage option \<Rightarrow> bool" where
  "isAdmin localStorage =
     (case localStorage of
        None \<Rightarrow> False
      | Some ls \<Rightarrow>
          let loggedIn = (ls ''isLoggedIn'' = Some ''true'')
          in if \<not> loggedIn then False
             else
               let email = toLowerCase (getItem_or_empty ls ''userEmail'');
                   role = toLowerCase (getItem_or_empty ls ''userRole'')
               in if role = ''admin'' then True else False)"

section \<open>The submit handler of the login form\<close>

text \<open>The trimmed values of the form's inputs.\<close>

record form_input =
  email :: string
  password :: string
  username :: string
  resetCode :: string
  confirmPassword :: string

text \<open>The mode flags of the form and the store behind \<open>localStorage\<close>.\<close>

record auth_state =
  isLogin :: bool
  isResetPhase1 :: bool
  isResetPhase2 :: bool
  localStorage :: storage



section \<open>Loading the device list\<close>

text \<open>An entry of \<open>offlineSensors\<close>: \<open>{ deviceId, name, classroom, status }\<close>.\<close>

record offline_sensor =
  deviceId_off :: jsval
  name_off :: jsval
  classroom_off :: jsval
  status_off :: jsval

text \<open>The module variables \<open>sensors\<close>, \<open>offlineSensors\<close> and \<open>activeSensorIndex\<close>.\<close>

record dashboard =
  sensors :: "Sensor list"
  offlineSensors :: "offline_sensor list"
  activeSensorIndex :: int

text \<open>The decimal digits of an index, as a template literal prints it.\<close>

function decimal :: "nat \<Rightarrow> string" where
  "decimal n = (if n < 10 then [char_of (48 + n)]
                else decimal (n div 10) @ [char_of (48 + n mod 10)])"
  by pat_completeness auto
termination
  by (relation "measure id") auto

declare decimal.simps [simp del]

text \<open>\<open>(dev.status !== undefined) ? dev.status : dev.Status\<close>\<close>

definition rawStatus :: "jsval \<Rightarrow> jsval" where
  "rawStatus dev =
     (if property dev ''status'' \<noteq> JUndefined then property dev ''status''
      else property dev ''Status'')"

definition isOnline :: "jsval \<Rightarrow> bool" where
  "isOnline dev =
     (let rs = rawStatus dev
      in rs = JBool True \<or> rs = JStr ''true'' \<or> rs = JStr ''online'' \<or> rs = JNum 1 \<or>
         rs = JStr ''1'')"

text \<open>\<open>dev.device_id || dev.DeviceID || dev.id || dev.deviceId\<close>\<close>

definition device_id :: "jsval \<Rightarrow> jsval" where
  "device_id dev =
     js_or (js_or (js_or (property dev ''device_id'') (property dev ''DeviceID''))
                  (property dev ''id''))
           (property dev ''deviceId'')"

text \<open>\<open>dev.name || dev.Name || dev.device_name || fallback\<close>\<close>

definition device_name :: "jsval \<Rightarrow> string \<Rightarrow> jsval" where
  "device_name dev fallback =
     js_or (js_or (js_or (property dev ''name'') (property dev ''Name''))
                  (property dev ''device_name''))
           (JStr fallback)"

text \<open>The chain of classroom keys, ending in the empty string.\<close>

definition device_classroom :: "jsval \<Rightarrow> jsval" where
  "device_classroom dev =
     js_or (js_or (js_or (js_or (js_or (js_or (property dev ''classroom_number'')
                                              (property dev ''classroomNumber''))
                                       (property dev ''ClassroomNumber''))
                                (property dev ''Classrooms_ClassroomNumber''))
                         (property dev ''classrooms_classroomNumber''))
                  (property dev ''room''))
           (JStr [])"

text \<open>
  The first \<open>forEach\<close>: every device goes to \<open>onlineRaw\<close> or to \<open>offlineRaw\<close>. Reading
  \<open>dev.status\<close> of an element that is \<open>null\<close> throws.
\<close>

fun partition_devices ::
  "jsval list \<Rightarrow> jsval list \<Rightarrow> jsval list \<Rightarrow> js_error + (jsval list \<times> jsval list)" where
  "partition_devices [] onlineRaw offlineRaw = Inr (onlineRaw, offlineRaw)"
| "partition_devices (dev # devs) onlineRaw offlineRaw =
     (if nullish dev then Inl TypeError
      else if isOnline dev then partition_devices devs (onlineRaw @ [dev]) offlineRaw
      else partition_devices devs onlineRaw (offlineRaw @ [dev]))"

text \<open>
  The second \<open>forEach\<close>, over the devices kept for the live charts, \<open>i\<close> being the index
  of the device: a device without a truthy id is skipped, any other becomes a sensor.
\<close>

fun build_sensors :: "nat \<Rightarrow> jsval list \<Rightarrow> Sensor list \<Rightarrow> Sensor list" where
  "build_sensors i [] acc = acc"
| "build_sensors i (dev # devs) acc =
     (let dId = device_id dev;
          name = device_name dev (''Sensor '' @ decimal (i + 1));
          st = js_coalesce (rawStatus dev) (JStr ''unknown'');
          classroom = device_classroom dev
      in if \<not> truthy dId then build_sensors (Suc i) devs acc
         else build_sensors (Suc i) devs
                (acc @ [(new_Sensor i dId name classroom st)
                          \<lparr> timeLabels := [], tempData := [], co2Data := [] \<rparr>]))"

text \<open>\<open>offlineRaw.map((dev, j) => ...).filter(d => !!d.deviceId)\<close>\<close>

definition offline_entry :: "nat \<times> jsval \<Rightarrow> offline_sensor" where
  "offline_entry jd =
     (case jd of (j, dev) \<Rightarrow>
        \<lparr> deviceId_off = device_id dev,
          name_off = device_name dev (''Sensor (offline '' @ decimal (j + 1) @ '')''),
          classroom_off = device_classroom dev,
          status_off = js_coalesce (rawStatus dev) (JBool False) \<rparr>)"

definition build_offline :: "jsval list \<Rightarrow> offline_sensor list" where
  "build_offline offlineRaw =
     filter (\<lambda>d. truthy (deviceId_off d)) (map offline_entry (enumerate 0 offlineRaw))"

text \<open>The elements of an array value.\<close>

fun elements :: "jsval \<Rightarrow> jsval list" where
  "elements (JArr vs) = vs"
| "elements _ = []"

text \<open>
  The \<open>try\<close> block of \<open>fetchDevices\<close>: the error it throws, if any, and the module
  variables as they are when it ends. \<open>render_throws\<close> says whether one of the rendering
  calls that close the block throws.
\<close>

definition fetchDevices_try :: "response \<Rightarrow> bool \<Rightarrow> dashboard \<Rightarrow> js_error option \<times> dashboard" where
  "fetchDevices_try res render_throws st =
     (case res of
        Rejected \<Rightarrow> (Some NetworkFailure, st)
      | Response ok body \<Rightarrow>
          if \<not> ok then (Some HttpError, st)
          else
            (case body of
               None \<Rightarrow> (Some JsonSyntaxError, st)
             | Some json \<Rightarrow>
                 (case getProp json ''success'' of
                    None \<Rightarrow> (Some TypeError, st)
                  | Some success \<Rightarrow>
                      if \<not> truthy success \<or> \<not> isArray (property json ''data'') then (None, st)
                      else
                        let all = elements (js_or (property json ''data'') (JArr []))
                        in (case partition_devices all [] [] of
                              Inl err \<Rightarrow> (Some err, st)
                            | Inr (onlineRaw, offlineRaw) \<Rightarrow>
                                let devices = take SENSOR_COUNT onlineRaw;
                                    st = st\<lparr> sensors := [] \<rparr>;
                                    st = st\<lparr> sensors := build_sensors 0 devices (sensors st) \<rparr>;
                                    st = st\<lparr> offlineSensors := build_offline offlineRaw \<rparr>;
                                    st = (if activeSensorIndex st \<ge> int (length (sensors st))
                                          then st\<lparr> activeSensorIndex :=
                                                    (if length (sensors st) \<noteq> 0 then 0 else - 1) \<rparr>
                                          else st)
                                in if render_throws then (Some RenderError, st) else (None, st)))))"

text \<open>
  \<open>fetchDevices()\<close>: the \<open>catch\<close> logs whatever the block throws and the function
  returns. The first component of the result is the reason the returned promise rejects
  with, \<open>None\<close> when the promise is fulfilled; the second is the module variables then.
\<close>

definition fetchDevices :: "response \<Rightarrow> bool \<Rightarrow> dashboard \<Rightarrow> js_error option \<times> dashboard" where
  "fetchDevices res render_throws st =
     (case fetchDevices_try res render_throws st of
        (Some err, st') \<Rightarrow> (None, st')
      | (None, st') \<Rightarrow> (None, st'))"

section \<open>Polling the latest measurements\<close>

text \<open>
  The loop of \<open>fetchLatestMeasurements\<close> from the sensor at position \<open>i\<close> on: \<open>res i\<close> is
  the outcome of the request for that sensor and \<open>label i\<close> the time label of its
  moment. The result is the error that ended the loop, if any, and the sensors as they
  are then.
\<close>

fun poll_sensors ::
  "(nat \<Rightarrow> response) \<Rightarrow> (nat \<Rightarrow> string) \<Rightarrow> nat \<Rightarrow> Sensor list \<Rightarrow> js_error option \<times> Sensor list" where
  "poll_sensors res label i [] = (None, [])"
| "poll_sensors res label i (s # ss) =
     (if \<not> truthy (deviceId s) then
        (case poll_sensors res label (Suc i) ss of (err, ss') \<Rightarrow> (err, s # ss'))
      else
        (case res i of
           Rejected \<Rightarrow> (Some NetworkFailure, s # ss)
         | Response ok body \<Rightarrow>
             if \<not> ok then (Some HttpError, s # ss)
             else
               (case body of
                  None \<Rightarrow> (Some JsonSyntaxError, s # ss)
                | Some payload \<Rightarrow>
                    let m = (if truthy payload \<and> typeof payload = ''object''
                             then js_or (property payload ''data'') payload
                             else JNull)
                    in if \<not> truthy m then
                         (case poll_sensors res label (Suc i) ss of (err, ss') \<Rightarrow> (err, s # ss'))
                       else
                         (case poll_sensors res label (Suc i) ss of
                            (err, ss') \<Rightarrow> (err, addMeasurement (label i) m s # ss')))))"

text \<open>
  The \<open>try\<close> block of \<open>fetchLatestMeasurements\<close>: the loop, then the rendering calls.
\<close>

definition fetchLatestMeasurements_try ::
  "(nat \<Rightarrow> response) \<Rightarrow> (nat \<Rightarrow> string) \<Rightarrow> bool \<Rightarrow> dashboard \<Rightarrow> js_error option \<times> dashboard" where
  "fetchLatestMeasurements_try res label render_throws st =
     (case poll_sensors res label 0 (sensors st) of
        (Some err, ss) \<Rightarrow> (Some err, st\<lparr> sensors := ss \<rparr>)
      | (None, ss) \<Rightarrow>
          if render_throws then (Some RenderError, st\<lparr> sensors := ss \<rparr>)
          else (None, st\<lparr> sensors := ss \<rparr>))"

text \<open>
  \<open>fetchLatestMeasurements()\<close>: the \<open>catch\<close> logs whatever the block throws. The result
  is read as that of \<open>fetchDevices\<close>.
\<close>

definition fetchLatestMeasurements ::
  "(nat \<Rightarrow> response) \<Rightarrow> (nat \<Rightarrow> string) \<Rightarrow> bool \<Rightarrow> dashboard \<Rightarrow> js_error option \<times> dashboard" where
  "fetchLatestMeasurements res label render_throws st =
     (case fetchLatestMeasurements_try res label render_throws st of
        (Some err, st') \<Rightarrow> (None, st')
      | (None, st') \<Rightarrow> (None, st'))"

section \<open>The history module\<close>



text \<open>
  The cache the exporters read: \<open>lastHistorySeries\<close> (\<open>null\<close> or the array of points
  last loaded) and \<open>lastHistoryMeta\<close> (\<open>null\<close> or the metadata stored with it).
\<close>

record history_meta =
  deviceId_h :: jsval
  sensorName_h :: jsval
  room_h :: jsval
  metric_h :: string
  range_h :: string
  unit_h :: string
  labels_h :: "string list"

record history_cache =
  lastHistorySeries :: "jsval list option"
  lastHistoryMeta :: "history_meta option"

text \<open>The header row of the export.\<close>

definition csv_header :: "jsval list" where
  "csv_header =
     [JStr ''Zeitstempel (ISO)'', JStr ''Zeit (Lokal Wien)'', JStr ''Wert'', JStr ''Anzahl'',
      JStr (''Messgr'' @ [CHR 0xF6, CHR 0xDF] @ ''e''), JStr ''Einheit'', JStr ''Sensor'',
      JStr ''Raum'', JStr ''Device ID'', JStr ''Zeitraum'']"

text \<open>
  The body of the \<open>forEach\<close> over the series: the row pushed for a point, or a TypeError
  when the point is \<open>null\<close>.
\<close>

definition csv_row :: "builtins \<Rightarrow> history_meta \<Rightarrow> jsval \<Rightarrow> js_error + jsval list" where
  "csv_row env meta p =
     (if nullish p then Inl TypeError
      else
        let ts = js_or (property p ''ts'') (JStr []);
            local = (case toLocaleString env ts of None \<Rightarrow> [] | Some l \<Rightarrow> l);
            val = (if nullish (property p ''avg'') then JStr [] else property p ''avg'');
            n = (if nullish (property p ''n'') then JStr [] else property p ''n'')
        in Inr [ts, JStr local, val, n, JStr (metric_h meta), JStr (unit_h meta),
                sensorName_h meta, room_h meta, deviceId_h meta, JStr (range_h meta)])"

fun push_rows ::
  "builtins \<Rightarrow> history_meta \<Rightarrow> jsval list \<Rightarrow> jsval list list \<Rightarrow> js_error + jsval list list" where
  "push_rows env meta [] rows = Inr rows"
| "push_rows env meta (p # ps) rows =
     (case csv_row env meta p of
        Inl err \<Rightarrow> Inl err
      | Inr row \<Rightarrow> push_rows env meta ps (rows @ [row]))"

text \<open>\<open>s.replace(/"/g, '""')\<close>\<close>

definition replace_quotes :: "string \<Rightarrow> string" where
  "replace_quotes s = concat (map (\<lambda>c. if c = CHR 0x22 then [CHR 0x22, CHR 0x22] else [c]) s)"

text \<open>
  The escaping of one field, \<open>s\<close> being \<open>String(field ?? '')\<close>: quoted when it contains
  a double quote, the separator or a newline.
\<close>

definition csv_escape :: "string \<Rightarrow> string" where
  "csv_escape s =
     (if CHR 0x22 \<in> set s \<or> CHR '';'' \<in> set s \<or> CHR 0x0A \<in> set s
      then [CHR 0x22] @ replace_quotes s @ [CHR 0x22]
      else s)"

definition csv_field :: "builtins \<Rightarrow> jsval \<Rightarrow> string" where
  "csv_field env field = (let s = js_String env (js_coalesce field (JStr [])) in csv_escape s)"

definition csv_line :: "builtins \<Rightarrow> jsval list \<Rightarrow> string" where
  "csv_line env r = join '';'' (map (csv_field env) r)"

text \<open>
  \<open>name.replace(/[^a-z0-9_-]+/gi, '_')\<close>: every maximal run of code units other than
  ASCII letters, digits, underscore and hyphen becomes one underscore.
\<close>

definition safe_char :: "char \<Rightarrow> bool" where
  "safe_char c =
     (let n = (of_char c :: nat)
      in (97 \<le> n \<and> n \<le> 122) \<or> (65 \<le> n \<and> n \<le> 90) \<or> (48 \<le> n \<and> n \<le> 57) \<or>
         c = CHR ''_'' \<or> c = CHR ''-'')"

function replace_unsafe :: "string \<Rightarrow> string" where
  "replace_unsafe [] = []"
| "replace_unsafe (c # cs) =
     (if safe_char c then c # replace_unsafe cs
      else CHR ''_'' # replace_unsafe (dropWhile (\<lambda>d. \<not> safe_char d) cs))"
  by pat_completeness auto
termination
  by (relation "measure length") (auto simp: le_imp_less_Suc length_dropWhile_le)

declare replace_unsafe.simps [simp del]

text \<open>
  \<open>(sensorName || 'sensor').replace(/[^a-z0-9_-]+/gi, '_')\<close>: only a string has a
  \<open>replace\<close> method, so on any other truthy value the call throws a TypeError.
\<close>

definition safeName :: "jsval \<Rightarrow> js_error + string" where
  "safeName sensorName =
     (case js_or sensorName (JStr ''sensor'') of
        JStr s \<Rightarrow> Inr (replace_unsafe s)
      | _ \<Rightarrow> Inl TypeError)"

text \<open>The file offered for download: its name and its text after the byte-order mark.\<close>

record download =
  filename :: string
  content :: string

text \<open>
  \<open>exportHistoryCSV()\<close>. \<open>stamp\<close> is the time of the call as the source formats it
  (\<open>now.toISOString().replace(/[:T]/g,'-').split('.')[0]\<close>). The first component of the
  result is the file offered for download (\<open>Inr None\<close> when the function returns without
  a file, \<open>Inl\<close> when it throws, which it does outside any \<open>try\<close>); the second is the
  cache when it ends. The text is built first, the file name after it, and the download
  is started last.
\<close>

definition exportHistoryCSV ::
  "builtins \<Rightarrow> storage option \<Rightarrow> string \<Rightarrow> history_cache \<Rightarrow>
     (js_error + download option) \<times> history_cache" where
  "exportHistoryCSV env ls stamp cache =
     (if \<not> isAdmin ls then (Inr None, cache)
      else
        (case lastHistorySeries cache of
           None \<Rightarrow> (Inr None, cache)
         | Some series \<Rightarrow>
             if length series = 0 then (Inr None, cache)
             else
               (case lastHistoryMeta cache of
                  None \<Rightarrow> (Inr None, cache)
                | Some meta \<Rightarrow>
                    (case push_rows env meta series [csv_header] of
                       Inl err \<Rightarrow> (Inl err, cache)
                     | Inr rows \<Rightarrow>
                         let csv = join [CHR 0x0A] (map (csv_line env) rows)
                         in (case safeName (sensorName_h meta) of
                               Inl err \<Rightarrow> (Inl err, cache)
                             | Inr name \<Rightarrow>
                                 (Inr (Some \<lparr> filename =
                                               ''history_'' @ name @ ''_'' @ metric_h meta @
                                               ''_'' @ range_h meta @ ''_'' @ stamp @ ''.csv'',
                                             content = csv \<rparr>),
                                  cache))))))"

section \<open>Reading the export back\<close>

text \<open>
  The reader the quoting is meant for, following its description: split the text at
  every separator that is outside quotes (the newline between the lines of the file, the
  semicolon between the fields of a line), then take the quotes off a quoted field and
  collapse each doubled quote into one.
\<close>

fun split_outside_quotes :: "char \<Rightarrow> bool \<Rightarrow> string \<Rightarrow> string \<Rightarrow> string list" where
  "split_outside_quotes sep inq cur [] = [cur]"
| "split_outside_quotes sep inq cur (c # cs) =
     (if c = CHR 0x22 then split_outside_quotes sep (\<not> inq) (cur @ [c]) cs
      else if c = sep \<and> \<not> inq then cur # split_outside_quotes sep False [] cs
      else split_outside_quotes sep inq (cur @ [c]) cs)"

fun collapse_quotes :: "string \<Rightarrow> string" where
  "collapse_quotes (c # d # cs) =
     (if c = CHR 0x22 \<and> d = CHR 0x22 then CHR 0x22 # collapse_quotes cs
      else c # collapse_quotes (d # cs))"
| "collapse_quotes cs = cs"

definition unquote_field :: "string \<Rightarrow> string" where
  "unquote_field f =
     (case f of
        [] \<Rightarrow> []
      | c # rest \<Rightarrow> if c = CHR 0x22 then collapse_quotes (butlast rest) else f)"

definition parse_csv_line :: "string \<Rightarrow> string list" where
  "parse_csv_line line = map unquote_field (split_outside_quotes (CHR '';'') False [] line)"

definition csv_lines :: "string \<Rightarrow> string list" where
  "csv_lines text = split_outside_quotes (CHR 0x0A) False [] text"

definition parse_csv :: "string \<Rightarrow> string list list" where
  "parse_csv text = map parse_csv_line (csv_lines text)"

section \<open>Results about the metric-name mappers\<close>

text \<open>
  C9: the mapper of the comparison charts and the mapper of the history module return the
  same backend metric key on every input string.
\<close>

theorem cmpMapMetricToApi_eq_mapMetricToApi:
  "cmpMapMetricToApi metric = mapMetricToApi metric"
  by (simp add: cmpMapMetricToApi_def mapMetricToApi_def Let_def)

section \<open>Results about the rolling window\<close>

text \<open>The trimming loop keeps the most recent \<open>WINDOW_SIZE\<close> elements.\<close>

lemma trim_eq: "trim xs = last_n WINDOW_SIZE xs"
proof (induction xs rule: trim.induct)
  case (1 arr)
  show ?case
  proof (cases "length arr > WINDOW_SIZE")
    case True
    then have "trim arr = trim (tl arr)"
      by (subst trim.simps) simp
    also have "\<dots> = last_n WINDOW_SIZE (tl arr)"
      using 1 True by simp
    also have "\<dots> = last_n WINDOW_SIZE arr"
      using True by (cases arr) (auto simp: last_n_def Suc_diff_le)
    finally show ?thesis .
  next
    case False
    then show ?thesis
      by (subst trim.simps) (simp add: last_n_def)
  qed
qed

lemma last_n_rev: "last_n n xs = rev (take n (rev xs))"
  by (simp add: last_n_def take_rev)

lemma length_last_n: "length (last_n n xs) \<le> n"
  by (simp add: last_n_def)

lemma last_n_short: "length xs \<le> n \<Longrightarrow> last_n n xs = xs"
  by (simp add: last_n_def)

lemma last_n_append_last_n: "last_n n (last_n n xs @ ys) = last_n n (xs @ ys)"
  by (simp add: last_n_rev min_def)

lemma push_number_new: "push_number v arr = arr @ (if typeof v = ''number'' then [v] else [])"
  by (simp add: push_number_def)

lemma push_number_else_new:
  "push_number_else v w arr =
     arr @ (if typeof v = ''number'' then [v] else if typeof w = ''number'' then [w] else [])"
  by (simp add: push_number_else_def)

lemma pushed_concat:
  "concat (map (\<lambda>c. if typeof (property (snd c) k) = ''number'' then [property (snd c) k] else [])
      calls) = pushed k (map snd calls)"
  by (induction calls) (simp_all add: pushed_def)

lemma pushed_else_concat:
  "concat (map (\<lambda>c. if typeof (property (snd c) k) = ''number'' then [property (snd c) k]
                     else if typeof (property (snd c) k') = ''number'' then [property (snd c) k']
                     else []) calls) = pushed_else k k' (map snd calls)"
  by (simp add: pushed_else_def comp_def)

lemma labels_concat: "concat (map (\<lambda>c. [fst c]) calls) = map fst calls"
  by (induction calls) simp_all

subsection \<open>One call on an object argument, field by field\<close>

lemma timeLabels_step:
  "is_object raw \<Longrightarrow> timeLabels (addMeasurement l raw s) = trim (timeLabels s @ [l])"
  by (simp add: addMeasurement_def is_object_def Let_def)

lemma tempData_step:
  "is_object raw \<Longrightarrow>
   tempData (addMeasurement l raw s) = trim (push_number (property raw ''temp'') (tempData s))"
  by (simp add: addMeasurement_def is_object_def Let_def)

lemma co2Data_step:
  "is_object raw \<Longrightarrow>
   co2Data (addMeasurement l raw s) = trim (push_number (property raw ''co2'') (co2Data s))"
  by (simp add: addMeasurement_def is_object_def Let_def)

lemma humidityData_step:
  "is_object raw \<Longrightarrow>
   humidityData (addMeasurement l raw s) = trim (push_number (property raw ''hum'') (humidityData s))"
  by (simp add: addMeasurement_def is_object_def Let_def)

lemma pm25Data_step:
  "is_object raw \<Longrightarrow>
   pm25Data (addMeasurement l raw s) = trim (push_number (property raw ''pm2_5'') (pm25Data s))"
  by (simp add: addMeasurement_def is_object_def Let_def)

lemma pm10Data_step:
  "is_object raw \<Longrightarrow>
   pm10Data (addMeasurement l raw s) = trim (push_number (property raw ''pm10'') (pm10Data s))"
  by (simp add: addMeasurement_def is_object_def Let_def)

lemma tvocData_step:
  "is_object raw \<Longrightarrow>
   tvocData (addMeasurement l raw s) = trim (push_number (property raw ''tvoc'') (tvocData s))"
  by (simp add: addMeasurement_def is_object_def Let_def)

lemma aqiData_step:
  "is_object raw \<Longrightarrow>
   aqiData (addMeasurement l raw s) = trim (push_number (property raw ''aqi'') (aqiData s))"
  by (simp add: addMeasurement_def is_object_def Let_def)

lemma coData_step:
  "is_object raw \<Longrightarrow>
   coData (addMeasurement l raw s) = trim (push_number (property raw ''co'') (coData s))"
  by (simp add: addMeasurement_def is_object_def Let_def)

lemma hchoData_step:
  "is_object raw \<Longrightarrow>
   hchoData (addMeasurement l raw s) = trim (push_number (property raw ''hcho'') (hchoData s))"
  by (simp add: addMeasurement_def is_object_def Let_def)

lemma pm03Data_step:
  "is_object raw \<Longrightarrow>
   pm03Data (addMeasurement l raw s) =
     trim (push_number_else (property raw ''pm_3'') (property raw ''pm0_3'') (pm03Data s))"
  by (simp add: addMeasurement_def is_object_def Let_def)

lemma pm1Data_step:
  "is_object raw \<Longrightarrow>
   pm1Data (addMeasurement l raw s) =
     trim (push_number_else (property raw ''pm1_0'') (property raw ''pm1'') (pm1Data s))"
  by (simp add: addMeasurement_def is_object_def Let_def)

subsection \<open>A sequence of calls\<close>

lemma addMeasurements_snoc:
  "addMeasurements s (calls @ [c]) = addMeasurement (fst c) (snd c) (addMeasurements s calls)"
  by (simp add: addMeasurements_def)

text \<open>
  A series that every call extends by some new elements and then trims holds the most
  recent \<open>WINDOW_SIZE\<close> of everything it was given.
\<close>

lemma addMeasurements_series:
  assumes step: "\<And>l raw s. is_object raw \<Longrightarrow> f (addMeasurement l raw s) = trim (f s @ new l raw)"
    and objs: "\<forall>c\<in>set calls. is_object (snd c)"
    and init: "length (f s0) \<le> WINDOW_SIZE"
  shows "f (addMeasurements s0 calls) =
         last_n WINDOW_SIZE (f s0 @ concat (map (\<lambda>c. new (fst c) (snd c)) calls))"
  using objs
proof (induction calls rule: rev_induct)
  case Nil
  show ?case using init by (simp add: addMeasurements_def last_n_short)
next
  case (snoc c calls)
  then have obj: "is_object (snd c)" and rest: "\<forall>c\<in>set calls. is_object (snd c)"
    by simp_all
  have "f (addMeasurements s0 (calls @ [c])) =
        trim (f (addMeasurements s0 calls) @ new (fst c) (snd c))"
    by (simp add: addMeasurements_snoc step [OF obj])
  also have "\<dots> = last_n WINDOW_SIZE
       (last_n WINDOW_SIZE (f s0 @ concat (map (\<lambda>c. new (fst c) (snd c)) calls))
          @ new (fst c) (snd c))"
    by (simp add: trim_eq snoc.IH [OF rest])
  also have "\<dots> =
       last_n WINDOW_SIZE (f s0 @ concat (map (\<lambda>c. new (fst c) (snd c)) (calls @ [c])))"
    by (simp add: last_n_append_last_n)
  finally show ?case .
qed

lemma timeLabels_run:
  assumes "\<forall>c\<in>set calls. is_object (snd c)" and "length (timeLabels s0) \<le> WINDOW_SIZE"
  shows "timeLabels (addMeasurements s0 calls) =
         last_n WINDOW_SIZE (timeLabels s0 @ map fst calls)"
  using addMeasurements_series [where f = timeLabels and new = "\<lambda>l raw. [l]", OF _ assms]
  by (simp add: timeLabels_step labels_concat)

lemma tempData_run:
  assumes "\<forall>c\<in>set calls. is_object (snd c)" and "length (tempData s0) \<le> WINDOW_SIZE"
  shows "tempData (addMeasurements s0 calls) =
         last_n WINDOW_SIZE (tempData s0 @ pushed ''temp'' (map snd calls))"
  using addMeasurements_series [where f = tempData
      and new = "\<lambda>l raw. if typeof (property raw ''temp'') = ''number''
                           then [property raw ''temp''] else []", OF _ assms]
  by (simp add: tempData_step push_number_new pushed_concat)

lemma co2Data_run:
  assumes "\<forall>c\<in>set calls. is_object (snd c)" and "length (co2Data s0) \<le> WINDOW_SIZE"
  shows "co2Data (addMeasurements s0 calls) =
         last_n WINDOW_SIZE (co2Data s0 @ pushed ''co2'' (map snd calls))"
  using addMeasurements_series [where f = co2Data
      and new = "\<lambda>l raw. if typeof (property raw ''co2'') = ''number''
                           then [property raw ''co2''] else []", OF _ assms]
  by (simp add: co2Data_step push_number_new pushed_concat)

lemma humidityData_run:
  assumes "\<forall>c\<in>set calls. is_object (snd c)" and "length (humidityData s0) \<le> WINDOW_SIZE"
  shows "humidityData (addMeasurements s0 calls) =
         last_n WINDOW_SIZE (humidityData s0 @ pushed ''hum'' (map snd calls))"
  using addMeasurements_series [where f = humidityData
      and new = "\<lambda>l raw. if typeof (property raw ''hum'') = ''number''
                           then [property raw ''hum''] else []", OF _ assms]
  by (simp add: humidityData_step push_number_new pushed_concat)

lemma pm25Data_run:
  assumes "\<forall>c\<in>set calls. is_object (snd c)" and "length (pm25Data s0) \<le> WINDOW_SIZE"
  shows "pm25Data (addMeasurements s0 calls) =
         last_n WINDOW_SIZE (pm25Data s0 @ pushed ''pm2_5'' (map snd calls))"
  using addMeasurements_series [where f = pm25Data
      and new = "\<lambda>l raw. if typeof (property raw ''pm2_5'') = ''number''
                           then [property raw ''pm2_5''] else []", OF _ assms]
  by (simp add: pm25Data_step push_number_new pushed_concat)

lemma pm10Data_run:
  assumes "\<forall>c\<in>set calls. is_object (snd c)" and "length (pm10Data s0) \<le> WINDOW_SIZE"
  shows "pm10Data (addMeasurements s0 calls) =
         last_n WINDOW_SIZE (pm10Data s0 @ pushed ''pm10'' (map snd calls))"
  using addMeasurements_series [where f = pm10Data
      and new = "\<lambda>l raw. if typeof (property raw ''pm10'') = ''number''
                           then [property raw ''pm10''] else []", OF _ assms]
  by (simp add: pm10Data_step push_number_new pushed_concat)

lemma tvocData_run:
  assumes "\<forall>c\<in>set calls. is_object (snd c)" and "length (tvocData s0) \<le> WINDOW_SIZE"
  shows "tvocData (addMeasurements s0 calls) =
         last_n WINDOW_SIZE (tvocData s0 @ pushed ''tvoc'' (map snd calls))"
  using addMeasurements_series [where f = tvocData
      and new = "\<lambda>l raw. if typeof (property raw ''tvoc'') = ''number''
                           then [property raw ''tvoc''] else []", OF _ assms]
  by (simp add: tvocData_step push_number_new pushed_concat)

lemma aqiData_run:
  assumes "\<forall>c\<in>set calls. is_object (snd c)" and "length (aqiData s0) \<le> WINDOW_SIZE"
  shows "aqiData (addMeasurements s0 calls) =
         last_n WINDOW_SIZE (aqiData s0 @ pushed ''aqi'' (map snd calls))"
  using addMeasurements_series [where f = aqiData
      and new = "\<lambda>l raw. if typeof (property raw ''aqi'') = ''number''
                           then [property raw ''aqi''] else []", OF _ assms]
  by (simp add: aqiData_step push_number_new pushed_concat)

lemma coData_run:
  assumes "\<forall>c\<in>set calls. is_object (snd c)" and "length (coData s0) \<le> WINDOW_SIZE"
  shows "coData (addMeasurements s0 calls) =
         last_n WINDOW_SIZE (coData s0 @ pushed ''co'' (map snd calls))"
  using addMeasurements_series [where f = coData
      and new = "\<lambda>l raw. if typeof (property raw ''co'') = ''number''
                           then [property raw ''co''] else []", OF _ assms]
  by (simp add: coData_step push_number_new pushed_concat)

lemma hchoData_run:
  assumes "\<forall>c\<in>set calls. is_object (snd c)" and "length (hchoData s0) \<le> WINDOW_SIZE"
  shows "hchoData (addMeasurements s0 calls) =
         last_n WINDOW_SIZE (hchoData s0 @ pushed ''hcho'' (map snd calls))"
  using addMeasurements_series [where f = hchoData
      and new = "\<lambda>l raw. if typeof (property raw ''hcho'') = ''number''
                           then [property raw ''hcho''] else []", OF _ assms]
  by (simp add: hchoData_step push_number_new pushed_concat)

lemma pm03Data_run:
  assumes "\<forall>c\<in>set calls. is_object (snd c)" and "length (pm03Data s0) \<le> WINDOW_SIZE"
  shows "pm03Data (addMeasurements s0 calls) =
         last_n WINDOW_SIZE (pm03Data s0 @ pushed_else ''pm_3'' ''pm0_3'' (map snd calls))"
  using addMeasurements_series [where f = pm03Data
      and new = "\<lambda>l raw. if typeof (property raw ''pm_3'') = ''number''
                           then [property raw ''pm_3'']
                           else if typeof (property raw ''pm0_3'') = ''number''
                           then [property raw ''pm0_3''] else []", OF _ assms]
  by (simp add: pm03Data_step push_number_else_new pushed_else_concat)

lemma pm1Data_run:
  assumes "\<forall>c\<in>set calls. is_object (snd c)" and "length (pm1Data s0) \<le> WINDOW_SIZE"
  shows "pm1Data (addMeasurements s0 calls) =
         last_n WINDOW_SIZE (pm1Data s0 @ pushed_else ''pm1_0'' ''pm1'' (map snd calls))"
  using addMeasurements_series [where f = pm1Data
      and new = "\<lambda>l raw. if typeof (property raw ''pm1_0'') = ''number''
                           then [property raw ''pm1_0'']
                           else if typeof (property raw ''pm1'') = ''number''
                           then [property raw ''pm1''] else []", OF _ assms]
  by (simp add: pm1Data_step push_number_else_new pushed_else_concat)

text \<open>
  C1 (rolling-window invariant): take a sensor as the constructor makes it and any
  sequence of \<open>addMeasurement\<close> calls whose arguments are objects. After the calls (so
  after each call, every prefix being such a sequence) the label array and each of the
  eleven numeric series has at most \<open>WINDOW_SIZE = 5\<close> elements, and it is the suffix of
  everything pushed to it: the most recent five values at most, the oldest dropped first.
\<close>

theorem rolling_window_invariant:
  fixes calls :: "(string \<times> jsval) list" and i dId dName room st
  assumes objs: "\<forall>c\<in>set calls. is_object (snd c)"
  defines "s \<equiv> addMeasurements (new_Sensor i dId dName room st) calls"
    and "raws \<equiv> map snd calls"
  shows "WINDOW_SIZE = 5 \<and>
     timeLabels s = last_n 5 (map fst calls) \<and> length (timeLabels s) \<le> 5 \<and>
     tempData s = last_n 5 (pushed ''temp'' raws) \<and> length (tempData s) \<le> 5 \<and>
     co2Data s = last_n 5 (pushed ''co2'' raws) \<and> length (co2Data s) \<le> 5 \<and>
     humidityData s = last_n 5 (pushed ''hum'' raws) \<and> length (humidityData s) \<le> 5 \<and>
     pm25Data s = last_n 5 (pushed ''pm2_5'' raws) \<and> length (pm25Data s) \<le> 5 \<and>
     pm10Data s = last_n 5 (pushed ''pm10'' raws) \<and> length (pm10Data s) \<le> 5 \<and>
     tvocData s = last_n 5 (pushed ''tvoc'' raws) \<and> length (tvocData s) \<le> 5 \<and>
     aqiData s = last_n 5 (pushed ''aqi'' raws) \<and> length (aqiData s) \<le> 5 \<and>
     coData s = last_n 5 (pushed ''co'' raws) \<and> length (coData s) \<le> 5 \<and>
     hchoData s = last_n 5 (pushed ''hcho'' raws) \<and> length (hchoData s) \<le> 5 \<and>
     pm03Data s = last_n 5 (pushed_else ''pm_3'' ''pm0_3'' raws) \<and> length (pm03Data s) \<le> 5 \<and>
     pm1Data s = last_n 5 (pushed_else ''pm1_0'' ''pm1'' raws) \<and> length (pm1Data s) \<le> 5"
proof -
  have "timeLabels s = last_n 5 (map fst calls)"
    using timeLabels_run [OF objs, of "new_Sensor i dId dName room st"]
    by (simp add: s_def new_Sensor_def WINDOW_SIZE_def)
  moreover have "tempData s = last_n 5 (pushed ''temp'' raws)"
    using tempData_run [OF objs, of "new_Sensor i dId dName room st"]
    by (simp add: s_def raws_def new_Sensor_def WINDOW_SIZE_def)
  moreover have "co2Data s = last_n 5 (pushed ''co2'' raws)"
    using co2Data_run [OF objs, of "new_Sensor i dId dName room st"]
    by (simp add: s_def raws_def new_Sensor_def WINDOW_SIZE_def)
  moreover have "humidityData s = last_n 5 (pushed ''hum'' raws)"
    using humidityData_run [OF objs, of "new_Sensor i dId dName room st"]
    by (simp add: s_def raws_def new_Sensor_def WINDOW_SIZE_def)
  moreover have "pm25Data s = last_n 5 (pushed ''pm2_5'' raws)"
    using pm25Data_run [OF objs, of "new_Sensor i dId dName room st"]
    by (simp add: s_def raws_def new_Sensor_def WINDOW_SIZE_def)
  moreover have "pm10Data s = last_n 5 (pushed ''pm10'' raws)"
    using pm10Data_run [OF objs, of "new_Sensor i dId dName room st"]
    by (simp add: s_def raws_def new_Sensor_def WINDOW_SIZE_def)
  moreover have "tvocData s = last_n 5 (pushed ''tvoc'' raws)"
    using tvocData_run [OF objs, of "new_Sensor i dId dName room st"]
    by (simp add: s_def raws_def new_Sensor_def WINDOW_SIZE_def)
  moreover have "aqiData s = last_n 5 (pushed ''aqi'' raws)"
    using aqiData_run [OF objs, of "new_Sensor i dId dName room st"]
    by (simp add: s_def raws_def new_Sensor_def WINDOW_SIZE_def)
  moreover have "coData s = last_n 5 (pushed ''co'' raws)"
    using coData_run [OF objs, of "new_Sensor i dId dName room st"]
    by (simp add: s_def raws_def new_Sensor_def WINDOW_SIZE_def)
  moreover have "hchoData s = last_n 5 (pushed ''hcho'' raws)"
    using hchoData_run [OF objs, of "new_Sensor i dId dName room st"]
    by (simp add: s_def raws_def new_Sensor_def WINDOW_SIZE_def)
  moreover have "pm03Data s = last_n 5 (pushed_else ''pm_3'' ''pm0_3'' raws)"
    using pm03Data_run [OF objs, of "new_Sensor i dId dName room st"]
    by (simp add: s_def raws_def new_Sensor_def WINDOW_SIZE_def)
  moreover have "pm1Data s = last_n 5 (pushed_else ''pm1_0'' ''pm1'' raws)"
    using pm1Data_run [OF objs, of "new_Sensor i dId dName room st"]
    by (simp add: s_def raws_def new_Sensor_def WINDOW_SIZE_def)
  ultimately show ?thesis
    by (simp add: WINDOW_SIZE_def length_last_n)
qed

theorem rolling_window_invariant_witness:
  "list_all (\<lambda>c. is_object (snd c)) [(''10:01'', JObj [(''temp'', JNum 1)]),
              (''10:02'', JObj [(''temp'', JNum 2), (''pm0_3'', JNum 7)]),
              (''10:03'', JObj [(''temp'', JNull)]),
              (''10:04'', JObj [(''temp'', JNum 4)]),
              (''10:05'', JArr []),
              (''10:06'', JObj [(''temp'', JNum 6)]),
              (''10:07'', JObj [(''temp'', JNum 7)]),
              (''10:08'', JObj [(''temp'', JNum 8)])] \<and>
   tempData (addMeasurements (new_Sensor 0 (JStr ''d1'') (JStr ''Sensor 1'') (JStr ''R1'') (JBool True))
     [(''10:01'', JObj [(''temp'', JNum 1)]),
      (''10:02'', JObj [(''temp'', JNum 2), (''pm0_3'', JNum 7)]),
      (''10:03'', JObj [(''temp'', JNull)]),
      (''10:04'', JObj [(''temp'', JNum 4)]),
      (''10:05'', JArr []),
      (''10:06'', JObj [(''temp'', JNum 6)]),
      (''10:07'', JObj [(''temp'', JNum 7)]),
      (''10:08'', JObj [(''temp'', JNum 8)])])
     = [JNum 2, JNum 4, JNum 6, JNum 7, JNum 8] \<and>
   timeLabels (addMeasurements (new_Sensor 0 (JStr ''d1'') (JStr ''Sensor 1'') (JStr ''R1'') (JBool True))
     [(''10:01'', JObj [(''temp'', JNum 1)]),
      (''10:02'', JObj [(''temp'', JNum 2), (''pm0_3'', JNum 7)]),
      (''10:03'', JObj [(''temp'', JNull)]),
      (''10:04'', JObj [(''temp'', JNum 4)]),
      (''10:05'', JArr []),
      (''10:06'', JObj [(''temp'', JNum 6)]),
      (''10:07'', JObj [(''temp'', JNum 7)]),
      (''10:08'', JObj [(''temp'', JNum 8)])])
     = [''10:04'', ''10:05'', ''10:06'', ''10:07'', ''10:08'']"
proof -
  let ?calls = "[(''10:01'', JObj [(''temp'', JNum 1)]),
      (''10:02'', JObj [(''temp'', JNum 2), (''pm0_3'', JNum 7)]),
      (''10:03'', JObj [(''temp'', JNull)]),
      (''10:04'', JObj [(''temp'', JNum 4)]),
      (''10:05'', JArr []),
      (''10:06'', JObj [(''temp'', JNum 6)]),
      (''10:07'', JObj [(''temp'', JNum 7)]),
      (''10:08'', JObj [(''temp'', JNum 8)])]"
  have h: "\<forall>c\<in>set ?calls. is_object (snd c)"
    by (simp add: is_object_def)
  show ?thesis
    using h rolling_window_invariant [OF h, of 0 "JStr ''d1''" "JStr ''Sensor 1''" "JStr ''R1''" "JBool True"]
    by (simp add: last_n_def pushed_def)
qed

section \<open>Results about one call of addMeasurement\<close>

lemma not_object_iff: "(\<not> truthy raw \<or> typeof raw \<noteq> ''object'') = (raw = JNull \<or> typeof raw \<noteq> ''object'')"
  by (cases raw) simp_all

lemma is_object_iff: "is_object raw = (raw \<noteq> JNull \<and> typeof raw = ''object'')"
  by (cases raw) (simp_all add: is_object_def)

lemma addMeasurement_no_object:
  "raw = JNull \<or> typeof raw \<noteq> ''object'' \<Longrightarrow> addMeasurement l raw s = s"
  using not_object_iff [of raw] by (simp add: addMeasurement_def)

lemma meta_step:
  "is_object raw \<Longrightarrow>
   lastRaw (addMeasurement l raw s) = raw \<and>
   id_num (addMeasurement l raw s) = id_num s \<and>
   deviceId (addMeasurement l raw s) = deviceId s \<and>
   deviceName (addMeasurement l raw s) = deviceName s \<and>
   classroomNumber (addMeasurement l raw s) = classroomNumber s \<and>
   status (addMeasurement l raw s) = status s"
  by (simp add: addMeasurement_def is_object_def Let_def)

lemma humidity_step:
  "is_object raw \<Longrightarrow>
   humidity (addMeasurement l raw s) = js_coalesce (property raw ''hum'') (humidity s)"
  by (simp add: addMeasurement_def is_object_def Let_def)

lemma pm25_step:
  "is_object raw \<Longrightarrow>
   pm25 (addMeasurement l raw s) = js_coalesce (property raw ''pm2_5'') (pm25 s)"
  by (simp add: addMeasurement_def is_object_def Let_def)

lemma pm1_0_step:
  "is_object raw \<Longrightarrow>
   pm1_0 (addMeasurement l raw s) = js_coalesce (property raw ''pm1_0'') (pm1_0 s)"
  by (simp add: addMeasurement_def is_object_def Let_def)

lemma tvoc_step:
  "is_object raw \<Longrightarrow>
   tvoc (addMeasurement l raw s) = js_coalesce (property raw ''tvoc'') (tvoc s)"
  by (simp add: addMeasurement_def is_object_def Let_def)

lemma aqi_step:
  "is_object raw \<Longrightarrow>
   aqi (addMeasurement l raw s) = js_coalesce (property raw ''aqi'') (aqi s)"
  by (simp add: addMeasurement_def is_object_def Let_def)

lemma co_step:
  "is_object raw \<Longrightarrow>
   co (addMeasurement l raw s) = js_coalesce (property raw ''co'') (co s)"
  by (simp add: addMeasurement_def is_object_def Let_def)

lemma hcho_step:
  "is_object raw \<Longrightarrow>
   hcho (addMeasurement l raw s) = js_coalesce (property raw ''hcho'') (hcho s)"
  by (simp add: addMeasurement_def is_object_def Let_def)

lemma pm10_step:
  "is_object raw \<Longrightarrow>
   pm10 (addMeasurement l raw s) = js_coalesce (property raw ''pm10'') (pm10 s)"
  by (simp add: addMeasurement_def is_object_def Let_def)

lemma pm1_step:
  "is_object raw \<Longrightarrow>
   pm1 (addMeasurement l raw s) =
     js_coalesce (js_coalesce (property raw ''pm1_0'') (property raw ''pm1'')) (pm1 s)"
  by (simp add: addMeasurement_def is_object_def Let_def)

lemma pm03_step:
  "is_object raw \<Longrightarrow>
   pm03 (addMeasurement l raw s) =
     js_coalesce (js_coalesce (property raw ''pm_3'') (property raw ''pm0_3'')) (pm03 s)"
  by (simp add: addMeasurement_def is_object_def Let_def)

text \<open>
  C8 (conditional append and no-op frame): on \<open>null\<close> or on a value that is not an object
  the call returns the sensor as it was, every field unchanged. On an object, with the
  series then cut to the most recent \<open>WINDOW_SIZE\<close> elements: the label array gets exactly
  one label; a numeric series gets the payload field exactly when that field is a number
  (for \<open>pm03Data\<close> the field \<open>pm_3\<close> or else \<open>pm0_3\<close>, for \<open>pm1Data\<close> the field \<open>pm1_0\<close> or
  else \<open>pm1\<close>) and is otherwise left as it was; a last-value scalar keeps its previous
  value when the payload field is \<open>null\<close> or \<open>undefined\<close> and takes the payload field's
  value otherwise; the payload is remembered and the metadata is untouched.
\<close>

theorem addMeasurement_frame:
  "(raw = JNull \<or> typeof raw \<noteq> ''object'' \<longrightarrow> addMeasurement l raw s = s) \<and>
   (raw \<noteq> JNull \<and> typeof raw = ''object'' \<longrightarrow>
      (let s' = addMeasurement l raw s in
         timeLabels s' = last_n WINDOW_SIZE (timeLabels s @ [l]) \<and>
         tempData s' = last_n WINDOW_SIZE
           (if typeof (property raw ''temp'') = ''number'' then tempData s @ [property raw ''temp'']
            else tempData s) \<and>
         co2Data s' = last_n WINDOW_SIZE
           (if typeof (property raw ''co2'') = ''number'' then co2Data s @ [property raw ''co2'']
            else co2Data s) \<and>
         humidityData s' = last_n WINDOW_SIZE
           (if typeof (property raw ''hum'') = ''number'' then humidityData s @ [property raw ''hum'']
            else humidityData s) \<and>
         pm25Data s' = last_n WINDOW_SIZE
           (if typeof (property raw ''pm2_5'') = ''number'' then pm25Data s @ [property raw ''pm2_5'']
            else pm25Data s) \<and>
         pm10Data s' = last_n WINDOW_SIZE
           (if typeof (property raw ''pm10'') = ''number'' then pm10Data s @ [property raw ''pm10'']
            else pm10Data s) \<and>
         tvocData s' = last_n WINDOW_SIZE
           (if typeof (property raw ''tvoc'') = ''number'' then tvocData s @ [property raw ''tvoc'']
            else tvocData s) \<and>
         aqiData s' = last_n WINDOW_SIZE
           (if typeof (property raw ''aqi'') = ''number'' then aqiData s @ [property raw ''aqi'']
            else aqiData s) \<and>
         coData s' = last_n WINDOW_SIZE
           (if typeof (property raw ''co'') = ''number'' then coData s @ [property raw ''co'']
            else coData s) \<and>
         hchoData s' = last_n WINDOW_SIZE
           (if typeof (property raw ''hcho'') = ''number'' then hchoData s @ [property raw ''hcho'']
            else hchoData s) \<and>
         pm03Data s' = last_n WINDOW_SIZE
           (if typeof (property raw ''pm_3'') = ''number'' then pm03Data s @ [property raw ''pm_3'']
            else if typeof (property raw ''pm0_3'') = ''number'' then pm03Data s @ [property raw ''pm0_3'']
            else pm03Data s) \<and>
         pm1Data s' = last_n WINDOW_SIZE
           (if typeof (property raw ''pm1_0'') = ''number'' then pm1Data s @ [property raw ''pm1_0'']
            else if typeof (property raw ''pm1'') = ''number'' then pm1Data s @ [property raw ''pm1'']
            else pm1Data s) \<and>
         humidity s' = (if nullish (property raw ''hum'') then humidity s else property raw ''hum'') \<and>
         pm25 s' = (if nullish (property raw ''pm2_5'') then pm25 s else property raw ''pm2_5'') \<and>
         pm1_0 s' = (if nullish (property raw ''pm1_0'') then pm1_0 s else property raw ''pm1_0'') \<and>
         tvoc s' = (if nullish (property raw ''tvoc'') then tvoc s else property raw ''tvoc'') \<and>
         aqi s' = (if nullish (property raw ''aqi'') then aqi s else property raw ''aqi'') \<and>
         co s' = (if nullish (property raw ''co'') then co s else property raw ''co'') \<and>
         hcho s' = (if nullish (property raw ''hcho'') then hcho s else property raw ''hcho'') \<and>
         pm10 s' = (if nullish (property raw ''pm10'') then pm10 s else property raw ''pm10'') \<and>
         pm1 s' = (if nullish (property raw ''pm1_0'')
                   then (if nullish (property raw ''pm1'') then pm1 s else property raw ''pm1'')
                   else property raw ''pm1_0'') \<and>
         pm03 s' = (if nullish (property raw ''pm_3'')
                   then (if nullish (property raw ''pm0_3'') then pm03 s else property raw ''pm0_3'')
                   else property raw ''pm_3'') \<and>
         lastRaw s' = raw \<and>
         id_num s' = id_num s \<and>
         deviceId s' = deviceId s \<and>
         deviceName s' = deviceName s \<and>
         classroomNumber s' = classroomNumber s \<and>
         status s' = status s))"
proof (intro conjI impI)
  assume "raw = JNull \<or> typeof raw \<noteq> ''object''"
  then show "addMeasurement l raw s = s"
    by (rule addMeasurement_no_object)
next
  assume "raw \<noteq> JNull \<and> typeof raw = ''object''"
  then have obj: "is_object raw"
    by (simp add: is_object_iff)
  note series = timeLabels_step [OF obj] tempData_step [OF obj] co2Data_step [OF obj]
    humidityData_step [OF obj] pm25Data_step [OF obj] pm10Data_step [OF obj]
    tvocData_step [OF obj] aqiData_step [OF obj] coData_step [OF obj] hchoData_step [OF obj]
    pm03Data_step [OF obj] pm1Data_step [OF obj]
  note scalars = humidity_step [OF obj] pm25_step [OF obj] pm1_0_step [OF obj]
    tvoc_step [OF obj] aqi_step [OF obj] co_step [OF obj] hcho_step [OF obj]
    pm10_step [OF obj] pm1_step [OF obj] pm03_step [OF obj]
  show "let s' = addMeasurement l raw s in
         timeLabels s' = last_n WINDOW_SIZE (timeLabels s @ [l]) \<and>
         tempData s' = last_n WINDOW_SIZE
           (if typeof (property raw ''temp'') = ''number'' then tempData s @ [property raw ''temp'']
            else tempData s) \<and>
         co2Data s' = last_n WINDOW_SIZE
           (if typeof (property raw ''co2'') = ''number'' then co2Data s @ [property raw ''co2'']
            else co2Data s) \<and>
         humidityData s' = last_n WINDOW_SIZE
           (if typeof (property raw ''hum'') = ''number'' then humidityData s @ [property raw ''hum'']
            else humidityData s) \<and>
         pm25Data s' = last_n WINDOW_SIZE
           (if typeof (property raw ''pm2_5'') = ''number'' then pm25Data s @ [property raw ''pm2_5'']
            else pm25Data s) \<and>
         pm10Data s' = last_n WINDOW_SIZE
           (if typeof (property raw ''pm10'') = ''number'' then pm10Data s @ [property raw ''pm10'']
            else pm10Data s) \<and>
         tvocData s' = last_n WINDOW_SIZE
           (if typeof (property raw ''tvoc'') = ''number'' then tvocData s @ [property raw ''tvoc'']
            else tvocData s) \<and>
         aqiData s' = last_n WINDOW_SIZE
           (if typeof (property raw ''aqi'') = ''number'' then aqiData s @ [property raw ''aqi'']
            else aqiData s) \<and>
         coData s' = last_n WINDOW_SIZE
           (if typeof (property raw ''co'') = ''number'' then coData s @ [property raw ''co'']
            else coData s) \<and>
         hchoData s' = last_n WINDOW_SIZE
           (if typeof (property raw ''hcho'') = ''number'' then hchoData s @ [property raw ''hcho'']
            else hchoData s) \<and>
         pm03Data s' = last_n WINDOW_SIZE
           (if typeof (property raw ''pm_3'') = ''number'' then pm03Data s @ [property raw ''pm_3'']
            else if typeof (property raw ''pm0_3'') = ''number'' then pm03Data s @ [property raw ''pm0_3'']
            else pm03Data s) \<and>
         pm1Data s' = last_n WINDOW_SIZE
           (if typeof (property raw ''pm1_0'') = ''number'' then pm1Data s @ [property raw ''pm1_0'']
            else if typeof (property raw ''pm1'') = ''number'' then pm1Data s @ [property raw ''pm1'']
            else pm1Data s) \<and>
         humidity s' = (if nullish (property raw ''hum'') then humidity s else property raw ''hum'') \<and>
         pm25 s' = (if nullish (property raw ''pm2_5'') then pm25 s else property raw ''pm2_5'') \<and>
         pm1_0 s' = (if nullish (property raw ''pm1_0'') then pm1_0 s else property raw ''pm1_0'') \<and>
         tvoc s' = (if nullish (property raw ''tvoc'') then tvoc s else property raw ''tvoc'') \<and>
         aqi s' = (if nullish (property raw ''aqi'') then aqi s else property raw ''aqi'') \<and>
         co s' = (if nullish (property raw ''co'') then co s else property raw ''co'') \<and>
         hcho s' = (if nullish (property raw ''hcho'') then hcho s else property raw ''hcho'') \<and>
         pm10 s' = (if nullish (property raw ''pm10'') then pm10 s else property raw ''pm10'') \<and>
         pm1 s' = (if nullish (property raw ''pm1_0'')
                   then (if nullish (property raw ''pm1'') then pm1 s else property raw ''pm1'')
                   else property raw ''pm1_0'') \<and>
         pm03 s' = (if nullish (property raw ''pm_3'')
                   then (if nullish (property raw ''pm0_3'') then pm03 s else property raw ''pm0_3'')
                   else property raw ''pm_3'') \<and>
         lastRaw s' = raw \<and>
         id_num s' = id_num s \<and>
         deviceId s' = deviceId s \<and>
         deviceName s' = deviceName s \<and>
         classroomNumber s' = classroomNumber s \<and>
         status s' = status s"
    unfolding Let_def series scalars trim_eq push_number_def push_number_else_def js_coalesce_def
    using meta_step [OF obj] by simp
qed

theorem addMeasurement_frame_witness:
  "(JObj [(''temp'', JNum 21), (''hum'', JNull), (''pm0_3'', JNum 3), (''co'', JStr ''n/a'')] \<noteq> JNull \<and>
    typeof (JObj [(''temp'', JNum 21), (''hum'', JNull), (''pm0_3'', JNum 3), (''co'', JStr ''n/a'')]) = ''object'') \<and>
   (JStr ''21'' = JNull \<or> typeof (JStr ''21'') \<noteq> ''object'') \<and>
   addMeasurement ''10:00'' (JStr ''21'')
     ((new_Sensor 0 (JStr ''d1'') (JStr ''Sensor 1'') (JStr ''R1'') (JBool True))\<lparr> humidity := JNum 40 \<rparr>)
     = (new_Sensor 0 (JStr ''d1'') (JStr ''Sensor 1'') (JStr ''R1'') (JBool True))\<lparr> humidity := JNum 40 \<rparr> \<and>
   tempData (addMeasurement ''10:00''
       (JObj [(''temp'', JNum 21), (''hum'', JNull), (''pm0_3'', JNum 3), (''co'', JStr ''n/a'')])
       ((new_Sensor 0 (JStr ''d1'') (JStr ''Sensor 1'') (JStr ''R1'') (JBool True))\<lparr> humidity := JNum 40 \<rparr>))
     = [JNum 21] \<and>
   pm03Data (addMeasurement ''10:00''
       (JObj [(''temp'', JNum 21), (''hum'', JNull), (''pm0_3'', JNum 3), (''co'', JStr ''n/a'')])
       ((new_Sensor 0 (JStr ''d1'') (JStr ''Sensor 1'') (JStr ''R1'') (JBool True))\<lparr> humidity := JNum 40 \<rparr>))
     = [JNum 3] \<and>
   coData (addMeasurement ''10:00''
       (JObj [(''temp'', JNum 21), (''hum'', JNull), (''pm0_3'', JNum 3), (''co'', JStr ''n/a'')])
       ((new_Sensor 0 (JStr ''d1'') (JStr ''Sensor 1'') (JStr ''R1'') (JBool True))\<lparr> humidity := JNum 40 \<rparr>))
     = [] \<and>
   co (addMeasurement ''10:00''
       (JObj [(''temp'', JNum 21), (''hum'', JNull), (''pm0_3'', JNum 3), (''co'', JStr ''n/a'')])
       ((new_Sensor 0 (JStr ''d1'') (JStr ''Sensor 1'') (JStr ''R1'') (JBool True))\<lparr> humidity := JNum 40 \<rparr>))
     = JStr ''n/a'' \<and>
   humidity (addMeasurement ''10:00''
       (JObj [(''temp'', JNum 21), (''hum'', JNull), (''pm0_3'', JNum 3), (''co'', JStr ''n/a'')])
       ((new_Sensor 0 (JStr ''d1'') (JStr ''Sensor 1'') (JStr ''R1'') (JBool True))\<lparr> humidity := JNum 40 \<rparr>))
     = JNum 40 \<and>
   timeLabels (addMeasurement ''10:00''
       (JObj [(''temp'', JNum 21), (''hum'', JNull), (''pm0_3'', JNum 3), (''co'', JStr ''n/a'')])
       ((new_Sensor 0 (JStr ''d1'') (JStr ''Sensor 1'') (JStr ''R1'') (JBool True))\<lparr> humidity := JNum 40 \<rparr>))
     = [''10:00'']"
  using addMeasurement_frame [of "JObj [(''temp'', JNum 21), (''hum'', JNull), (''pm0_3'', JNum 3), (''co'', JStr ''n/a'')]"
      "''10:00''"
      "(new_Sensor 0 (JStr ''d1'') (JStr ''Sensor 1'') (JStr ''R1'') (JBool True))\<lparr> humidity := JNum 40 \<rparr>"]
    addMeasurement_frame [of "JStr ''21''" "''10:00''"
      "(new_Sensor 0 (JStr ''d1'') (JStr ''Sensor 1'') (JStr ''R1'') (JBool True))\<lparr> humidity := JNum 40 \<rparr>"]
  by (simp add: Let_def last_n_def new_Sensor_def WINDOW_SIZE_def)

section \<open>Results about the admin check\<close>

text \<open>
  C2: \<open>__isAdmin()\<close> returns true if and only if localStorage can be read, binds
  \<open>isLoggedIn\<close> to the string \<open>true\<close> and binds \<open>userRole\<close> to a string whose lower-case
  form is \<open>admin\<close>. In every other case (not logged in, role absent or different, an
  exception while reading localStorage) it returns false.
\<close>

theorem isAdmin_iff:
  "isAdmin st =
     (\<exists>ls role. st = Some ls \<and> ls ''isLoggedIn'' = Some ''true'' \<and>
                ls ''userRole'' = Some role \<and> toLowerCase role = ''admin'')"
  by (auto simp: isAdmin_def getItem_or_empty_def Let_def toLowerCase_def split: option.splits)

lemma toLowerCase_Admin: "toLowerCase ''Admin'' = ''admin''"
  by code_simp

lemma toLowerCase_Gast: "toLowerCase ''Gast'' = ''gast''"
  by code_simp

theorem isAdmin_iff_witness:
  "isAdmin (Some [''isLoggedIn'' \<mapsto> ''true'', ''userRole'' \<mapsto> ''Admin'']) \<and>
   \<not> isAdmin (Some [''isLoggedIn'' \<mapsto> ''true'', ''userRole'' \<mapsto> ''Gast'']) \<and>
   \<not> isAdmin (Some [''userRole'' \<mapsto> ''Admin'']) \<and>
   \<not> isAdmin None"
  using isAdmin_iff [of "Some [''isLoggedIn'' \<mapsto> ''true'', ''userRole'' \<mapsto> ''Admin'']"]
    isAdmin_iff [of "Some [''isLoggedIn'' \<mapsto> ''true'', ''userRole'' \<mapsto> ''Gast'']"]
    isAdmin_iff [of "Some [''userRole'' \<mapsto> ''Admin'']"]
    isAdmin_iff [of None]
  by (simp add: toLowerCase_Admin toLowerCase_Gast)

section \<open>Results about the login\<close>










section \<open>Results about loading the device list\<close>

lemma partition_devices_filter:
  "\<forall>dev\<in>set all. \<not> nullish dev \<Longrightarrow>
   partition_devices all on off =
     Inr (on @ filter isOnline all, off @ filter (\<lambda>d. \<not> isOnline d) all)"
  by (induction all arbitrary: on off) simp_all

lemma build_sensors_ids:
  "map deviceId (build_sensors i devs acc) = map deviceId acc @ filter truthy (map device_id devs)"
  by (induction devs arbitrary: i acc) (simp_all add: Let_def new_Sensor_def)

lemma build_offline_ids:
  "map deviceId_off (build_offline offlineRaw) = filter truthy (map device_id offlineRaw)"
proof -
  have "map deviceId_off
          (filter (\<lambda>d. truthy (deviceId_off d)) (map offline_entry (enumerate n xs))) =
        filter truthy (map device_id xs)" for n xs
    by (induction xs arbitrary: n) (simp_all add: offline_entry_def)
  then show ?thesis
    by (simp add: build_offline_def)
qed

lemma fetchDevices_accepted:
  assumes "truthy (property json ''success'')" and "property json ''data'' = JArr all"
    and "\<forall>dev\<in>set all. \<not> nullish dev"
  shows "fst (fetchDevices (Response True (Some json)) render st) = None \<and>
         map deviceId (sensors (snd (fetchDevices (Response True (Some json)) render st))) =
           filter truthy (map device_id (take SENSOR_COUNT (filter isOnline all))) \<and>
         map deviceId_off (offlineSensors (snd (fetchDevices (Response True (Some json)) render st))) =
           filter truthy (map device_id (filter (\<lambda>d. \<not> isOnline d) all))"
proof -
  have g: "getProp json ''success'' = Some (property json ''success'')"
    using assms(1) by (cases json) (simp_all add: getProp_def)
  show ?thesis
    using assms
    by (simp add: fetchDevices_def fetchDevices_try_def g js_or_def partition_devices_filter
        Let_def build_sensors_ids build_offline_ids)
qed

lemma fetchDevices_unchanged:
  assumes "res = Rejected \<or> (\<exists>body. res = Response False body) \<or> res = Response True None \<or>
     (\<exists>json. res = Response True (Some json) \<and>
        (\<not> truthy (property json ''success'') \<or> \<not> isArray (property json ''data'')))"
  shows "fetchDevices res render st = (None, st)"
  using assms
  by (auto simp: fetchDevices_def fetchDevices_try_def getProp_def split: option.splits)

lemma fetchDevices_fulfilled: "fst (fetchDevices res render st) = None"
  by (simp add: fetchDevices_def split: prod.splits option.splits)

lemma fetchLatestMeasurements_fulfilled: "fst (fetchLatestMeasurements res label render st) = None"
  by (simp add: fetchLatestMeasurements_def split: prod.splits option.splits)


text \<open>
  C3 as the claim states it fails: with six online devices, each with a device id, the
  sixth is a device of the response that is in neither array. It is cut off by the limit
  of \<open>SENSOR_COUNT\<close> live sensors and was never put among the offline devices.
\<close>

theorem fetchDevices_remaining_counterexample:
  "isOnline (JObj [(''device_id'', JStr ''d6''), (''status'', JBool True)]) \<and>
   truthy (device_id (JObj [(''device_id'', JStr ''d6''), (''status'', JBool True)])) \<and>
   device_id (JObj [(''device_id'', JStr ''d6''), (''status'', JBool True)]) = JStr ''d6'' \<and>
   fst (fetchDevices
     (Response True (Some (JObj [(''success'', JBool True), (''data'',
      JArr [JObj [(''device_id'', JStr ''d1''), (''status'', JBool True)],
        JObj [(''device_id'', JStr ''d2''), (''status'', JBool True)],
        JObj [(''device_id'', JStr ''d3''), (''status'', JBool True)],
        JObj [(''device_id'', JStr ''d4''), (''status'', JBool True)],
        JObj [(''device_id'', JStr ''d5''), (''status'', JBool True)],
        JObj [(''device_id'', JStr ''d6''), (''status'', JBool True)]])])))
     False \<lparr> sensors = [], offlineSensors = [], activeSensorIndex = 0 \<rparr>) = None \<and>
   map deviceId (sensors (snd (fetchDevices
     (Response True (Some (JObj [(''success'', JBool True), (''data'',
      JArr [JObj [(''device_id'', JStr ''d1''), (''status'', JBool True)],
        JObj [(''device_id'', JStr ''d2''), (''status'', JBool True)],
        JObj [(''device_id'', JStr ''d3''), (''status'', JBool True)],
        JObj [(''device_id'', JStr ''d4''), (''status'', JBool True)],
        JObj [(''device_id'', JStr ''d5''), (''status'', JBool True)],
        JObj [(''device_id'', JStr ''d6''), (''status'', JBool True)]])])))
     False \<lparr> sensors = [], offlineSensors = [], activeSensorIndex = 0 \<rparr>)))
     = [JStr ''d1'', JStr ''d2'', JStr ''d3'', JStr ''d4'', JStr ''d5''] \<and>
   map deviceId_off (offlineSensors (snd (fetchDevices
     (Response True (Some (JObj [(''success'', JBool True), (''data'',
      JArr [JObj [(''device_id'', JStr ''d1''), (''status'', JBool True)],
        JObj [(''device_id'', JStr ''d2''), (''status'', JBool True)],
        JObj [(''device_id'', JStr ''d3''), (''status'', JBool True)],
        JObj [(''device_id'', JStr ''d4''), (''status'', JBool True)],
        JObj [(''device_id'', JStr ''d5''), (''status'', JBool True)],
        JObj [(''device_id'', JStr ''d6''), (''status'', JBool True)]])])))
     False \<lparr> sensors = [], offlineSensors = [], activeSensorIndex = 0 \<rparr>)))
     = []"
proof -
  have "isOnline (JObj [(''device_id'', JStr ''d6''), (''status'', JBool True)]) \<and>
        truthy (device_id (JObj [(''device_id'', JStr ''d6''), (''status'', JBool True)])) \<and>
        device_id (JObj [(''device_id'', JStr ''d6''), (''status'', JBool True)]) = JStr ''d6''"
    by (simp add: isOnline_def rawStatus_def device_id_def js_or_def)
  moreover note fetchDevices_accepted [of
      "JObj [(''success'', JBool True), (''data'',
      JArr [JObj [(''device_id'', JStr ''d1''), (''status'', JBool True)],
        JObj [(''device_id'', JStr ''d2''), (''status'', JBool True)],
        JObj [(''device_id'', JStr ''d3''), (''status'', JBool True)],
        JObj [(''device_id'', JStr ''d4''), (''status'', JBool True)],
        JObj [(''device_id'', JStr ''d5''), (''status'', JBool True)],
        JObj [(''device_id'', JStr ''d6''), (''status'', JBool True)]])]"
      "elements (JArr [JObj [(''device_id'', JStr ''d1''), (''status'', JBool True)],
        JObj [(''device_id'', JStr ''d2''), (''status'', JBool True)],
        JObj [(''device_id'', JStr ''d3''), (''status'', JBool True)],
        JObj [(''device_id'', JStr ''d4''), (''status'', JBool True)],
        JObj [(''device_id'', JStr ''d5''), (''status'', JBool True)],
        JObj [(''device_id'', JStr ''d6''), (''status'', JBool True)]])" False
      "\<lparr> sensors = [], offlineSensors = [], activeSensorIndex = 0 \<rparr>"]
  ultimately show ?thesis
    by (simp add: isOnline_def rawStatus_def device_id_def js_or_def SENSOR_COUNT_def)
qed

text \<open>
  C3, amended: for a device-list response whose \<open>success\<close> is truthy and whose \<open>data\<close>
  is an array of devices (no element \<open>null\<close>), after \<open>fetchDevices\<close>: a device counts as
  online exactly when its status (\<open>status\<close>, or \<open>Status\<close> when \<open>status\<close> is undefined) is
  one of \<open>true\<close>, \<open>'true'\<close>, \<open>'online'\<close>, \<open>1\<close>, \<open>'1'\<close>; \<open>sensors\<close> holds, in order, the
  first \<open>SENSOR_COUNT = 5\<close> online devices that have a truthy device id, so at most five;
  \<open>offlineSensors\<close> holds, in order, the devices not online that have a truthy device id;
  every element of both arrays has a truthy device id. Online devices beyond the first
  five are in neither array.
\<close>

theorem fetchDevices_partition:
  fixes json all render st
  assumes succ: "truthy (property json ''success'')"
    and data: "property json ''data'' = JArr all"
    and devs: "\<forall>dev\<in>set all. \<not> nullish dev"
  defines "st' \<equiv> snd (fetchDevices (Response True (Some json)) render st)"
  shows "(\<forall>dev. isOnline dev =
            (rawStatus dev \<in> {JBool True, JStr ''true'', JStr ''online'', JNum 1, JStr ''1''})) \<and>
         (\<forall>dev. rawStatus dev =
            (if property dev ''status'' \<noteq> JUndefined then property dev ''status''
             else property dev ''Status'')) \<and>
         SENSOR_COUNT = 5 \<and>
         map deviceId (sensors st') =
           filter truthy (map device_id (take 5 (filter isOnline all))) \<and>
         length (sensors st') \<le> 5 \<and>
         (\<forall>s\<in>set (sensors st'). truthy (deviceId s)) \<and>
         map deviceId_off (offlineSensors st') =
           filter truthy (map device_id (filter (\<lambda>d. \<not> isOnline d) all)) \<and>
         (\<forall>d\<in>set (offlineSensors st'). truthy (deviceId_off d)) \<and>
         (\<forall>dev\<in>set all. \<not> isOnline dev \<and> truthy (device_id dev) \<longrightarrow>
            device_id dev \<in> deviceId_off ` set (offlineSensors st'))"
proof -
  note acc = fetchDevices_accepted [OF succ data devs, of render st, folded st'_def]
  have on: "map deviceId (sensors st') =
            filter truthy (map device_id (take 5 (filter isOnline all)))"
    using acc by (simp add: SENSOR_COUNT_def)
  have off: "map deviceId_off (offlineSensors st') =
             filter truthy (map device_id (filter (\<lambda>d. \<not> isOnline d) all))"
    using acc by simp
  have "length (sensors st') = length (map deviceId (sensors st'))"
    by simp
  also have "\<dots> \<le> length (take 5 (filter isOnline all))"
    unfolding on by (rule order_trans [OF length_filter_le]) simp
  also have "\<dots> \<le> 5"
    by simp
  finally have len: "length (sensors st') \<le> 5" .
  have t_on: "\<forall>s\<in>set (sensors st'). truthy (deviceId s)"
  proof
    fix s assume "s \<in> set (sensors st')"
    then have "deviceId s \<in> set (map deviceId (sensors st'))"
      by simp
    then show "truthy (deviceId s)"
      unfolding on by simp
  qed
  have t_off: "\<forall>d\<in>set (offlineSensors st'). truthy (deviceId_off d)"
  proof
    fix d assume "d \<in> set (offlineSensors st')"
    then have "deviceId_off d \<in> set (map deviceId_off (offlineSensors st'))"
      by simp
    then show "truthy (deviceId_off d)"
      unfolding off by simp
  qed
  have appears: "\<forall>dev\<in>set all. \<not> isOnline dev \<and> truthy (device_id dev) \<longrightarrow>
            device_id dev \<in> deviceId_off ` set (offlineSensors st')"
  proof (intro ballI impI)
    fix dev assume "dev \<in> set all" and "\<not> isOnline dev \<and> truthy (device_id dev)"
    then have "device_id dev \<in> set (filter truthy (map device_id (filter (\<lambda>d. \<not> isOnline d) all)))"
      by simp
    then have "device_id dev \<in> set (map deviceId_off (offlineSensors st'))"
      unfolding off .
    then show "device_id dev \<in> deviceId_off ` set (offlineSensors st')"
      by simp
  qed
  have cls: "\<forall>dev. isOnline dev =
            (rawStatus dev \<in> {JBool True, JStr ''true'', JStr ''online'', JNum 1, JStr ''1''})"
    by (auto simp: isOnline_def Let_def)
  have rs: "\<forall>dev. rawStatus dev =
            (if property dev ''status'' \<noteq> JUndefined then property dev ''status''
             else property dev ''Status'')"
    by (simp add: rawStatus_def)
  show ?thesis
    using cls rs on len t_on off t_off appears by (simp only: SENSOR_COUNT_def simp_thms)
qed

theorem fetchDevices_partition_witness:
  "truthy (property (JObj [(''success'', JBool True), (''data'', JArr
       [JObj [(''device_id'', JStr ''a''), (''status'', JStr ''online'')],
        JObj [(''name'', JStr ''no id''), (''status'', JNum 1)],
        JObj [(''id'', JStr ''b''), (''Status'', JStr ''offline'')],
        JObj [(''status'', JBool False)],
        JObj [(''DeviceID'', JNum 7), (''status'', JStr ''1'')]])]) ''success'') \<and>
   map deviceId (sensors (snd (fetchDevices (Response True (Some
      (JObj [(''success'', JBool True), (''data'', JArr
       [JObj [(''device_id'', JStr ''a''), (''status'', JStr ''online'')],
        JObj [(''name'', JStr ''no id''), (''status'', JNum 1)],
        JObj [(''id'', JStr ''b''), (''Status'', JStr ''offline'')],
        JObj [(''status'', JBool False)],
        JObj [(''DeviceID'', JNum 7), (''status'', JStr ''1'')]])])))
      True \<lparr> sensors = [], offlineSensors = [], activeSensorIndex = 0 \<rparr>)))
     = [JStr ''a'', JNum 7] \<and>
   map deviceId_off (offlineSensors (snd (fetchDevices (Response True (Some
      (JObj [(''success'', JBool True), (''data'', JArr
       [JObj [(''device_id'', JStr ''a''), (''status'', JStr ''online'')],
        JObj [(''name'', JStr ''no id''), (''status'', JNum 1)],
        JObj [(''id'', JStr ''b''), (''Status'', JStr ''offline'')],
        JObj [(''status'', JBool False)],
        JObj [(''DeviceID'', JNum 7), (''status'', JStr ''1'')]])])))
      True \<lparr> sensors = [], offlineSensors = [], activeSensorIndex = 0 \<rparr>)))
     = [JStr ''b'']"
proof -
  let ?all = "[JObj [(''device_id'', JStr ''a''), (''status'', JStr ''online'')],
        JObj [(''name'', JStr ''no id''), (''status'', JNum 1)],
        JObj [(''id'', JStr ''b''), (''Status'', JStr ''offline'')],
        JObj [(''status'', JBool False)],
        JObj [(''DeviceID'', JNum 7), (''status'', JStr ''1'')]]"
  let ?json = "JObj [(''success'', JBool True), (''data'', JArr ?all)]"
  have succ: "truthy (property ?json ''success'')"
    by simp
  have data: "property ?json ''data'' = JArr ?all"
    by simp
  have devs: "\<forall>dev\<in>set ?all. \<not> nullish dev"
    by simp
  show ?thesis
    using succ fetchDevices_partition [OF succ data devs, of True "\<lparr> sensors = [], offlineSensors = [], activeSensorIndex = 0 \<rparr>"]
    by (simp add: isOnline_def rawStatus_def device_id_def js_or_def)
qed

section \<open>Results about failed requests\<close>

text \<open>
  C6 (best-effort failure containment): whatever the outcome of the backend requests
  inside \<open>fetchDevices\<close> and \<open>fetchLatestMeasurements\<close> (network error, status not ok, body
  not JSON) and whatever else their \<open>try\<close> blocks throw, the error is caught inside the
  function and the returned promise is never rejected. When the request of
  \<open>fetchDevices\<close> fails, or its response lacks a truthy \<open>success\<close> (the test the code
  makes for success being true) or an array \<open>data\<close>, the module variables, \<open>sensors\<close> and
  \<open>offlineSensors\<close> among them, are left as they were.
\<close>

theorem fetch_failure_containment:
  "fst (fetchDevices res render st) = None \<and>
   fst (fetchLatestMeasurements ress label render st) = None \<and>
   (res = Rejected \<or> (\<exists>body. res = Response False body) \<or> res = Response True None \<or>
    (\<exists>json. res = Response True (Some json) \<and>
       (\<not> truthy (property json ''success'') \<or> \<not> isArray (property json ''data'')))
    \<longrightarrow> snd (fetchDevices res render st) = st)"
  using fetchDevices_fulfilled [of res render st]
    fetchLatestMeasurements_fulfilled [of ress label render st]
    fetchDevices_unchanged [of res render st]
  by auto

theorem fetch_failure_containment_witness:
  "snd (fetchDevices (Response True (Some (JObj [(''success'', JBool False), (''data'', JArr [])]))) False
      \<lparr> sensors = [new_Sensor 0 (JStr ''dev1'') (JStr ''Sensor 1'') (JStr ''R1'') (JBool True)], offlineSensors = [], activeSensorIndex = 0 \<rparr>)
     = \<lparr> sensors = [new_Sensor 0 (JStr ''dev1'') (JStr ''Sensor 1'') (JStr ''R1'') (JBool True)], offlineSensors = [], activeSensorIndex = 0 \<rparr> \<and>
   snd (fetchDevices (Response False None) False
      \<lparr> sensors = [new_Sensor 0 (JStr ''dev1'') (JStr ''Sensor 1'') (JStr ''R1'') (JBool True)], offlineSensors = [], activeSensorIndex = 0 \<rparr>)
     = \<lparr> sensors = [new_Sensor 0 (JStr ''dev1'') (JStr ''Sensor 1'') (JStr ''R1'') (JBool True)], offlineSensors = [], activeSensorIndex = 0 \<rparr> \<and>
   fst (fetchLatestMeasurements_try (\<lambda>i. Response False None) (\<lambda>i. ''10:00'') False
      \<lparr> sensors = [new_Sensor 0 (JStr ''dev1'') (JStr ''Sensor 1'') (JStr ''R1'') (JBool True)], offlineSensors = [], activeSensorIndex = 0 \<rparr>)
     = Some HttpError \<and>
   fst (fetchLatestMeasurements (\<lambda>i. Response False None) (\<lambda>i. ''10:00'') False
      \<lparr> sensors = [new_Sensor 0 (JStr ''dev1'') (JStr ''Sensor 1'') (JStr ''R1'') (JBool True)], offlineSensors = [], activeSensorIndex = 0 \<rparr>)
     = None"
proof -
  let ?st = "\<lparr> sensors = [new_Sensor 0 (JStr ''dev1'') (JStr ''Sensor 1'') (JStr ''R1'') (JBool True)], offlineSensors = [], activeSensorIndex = 0 \<rparr>"
  have t: "fst (fetchLatestMeasurements_try (\<lambda>i. Response False None) (\<lambda>i. ''10:00'') False ?st)
           = Some HttpError"
    by (simp add: fetchLatestMeasurements_try_def new_Sensor_def)
  show ?thesis
    using t
      fetch_failure_containment [of
        "Response True (Some (JObj [(''success'', JBool False), (''data'', JArr [])]))" False ?st
        "\<lambda>i. Response False None" "\<lambda>i. ''10:00''"]
      fetch_failure_containment [of "Response False None" False ?st
        "\<lambda>i. Response False None" "\<lambda>i. ''10:00''"]
    by simp
qed

section \<open>Results about the history request\<close>






section \<open>Results about the CSV quoting\<close>

lemma collapse_replace: "collapse_quotes (replace_quotes s) = s"
proof (induction s)
  case Nil show ?case by (simp add: replace_quotes_def)
next
  case (Cons c s)
  show ?case
  proof (cases "c = CHR 0x22")
    case True
    with Cons show ?thesis by (simp add: replace_quotes_def)
  next
    case False
    have "collapse_quotes (c # xs) = c # collapse_quotes xs" for xs
      using False by (cases xs) simp_all
    with Cons False show ?thesis by (simp add: replace_quotes_def)
  qed
qed

lemma split_plain:
  "CHR 0x22 \<notin> set u \<Longrightarrow> sep \<notin> set u \<Longrightarrow>
   split_outside_quotes sep False cur (u @ rest) = split_outside_quotes sep False (cur @ u) rest"
  by (induction u arbitrary: cur) auto

lemma split_inside:
  "split_outside_quotes sep True cur (replace_quotes s @ rest) =
   split_outside_quotes sep True (cur @ replace_quotes s) rest"
  by (induction s arbitrary: cur) (simp_all add: replace_quotes_def)

lemma split_escaped:
  "sep = CHR '';'' \<or> sep = CHR 0x0A \<Longrightarrow>
   split_outside_quotes sep False cur (csv_escape s @ rest) =
   split_outside_quotes sep False (cur @ csv_escape s) rest"
  by (auto simp: csv_escape_def split_plain split_inside)

lemma split_join:
  assumes pass: "\<And>p cur rest. p \<in> set (f # fs) \<Longrightarrow>
      split_outside_quotes sep False cur (p @ rest) = split_outside_quotes sep False (cur @ p) rest"
    and sep: "sep \<noteq> CHR 0x22"
  shows "split_outside_quotes sep False cur (join [sep] (f # fs)) = (cur @ f) # fs"
  using pass
proof (induction fs arbitrary: cur f)
  case Nil
  show ?case using Nil [of f cur "[]"] by simp
next
  case (Cons g gs)
  have "split_outside_quotes sep False cur (join [sep] (f # g # gs)) =
        split_outside_quotes sep False (cur @ f) (sep # join [sep] (g # gs))"
    using Cons.prems [of f cur "sep # join [sep] (g # gs)"] by simp
  also have "\<dots> = (cur @ f) # split_outside_quotes sep False [] (join [sep] (g # gs))"
    using sep by simp
  also have "\<dots> = (cur @ f) # g # gs"
    using Cons.IH [of g "[]"] Cons.prems by simp
  finally show ?case .
qed

lemma split_line:
  "split_outside_quotes (CHR '';'') False cur (join '';'' (map csv_escape (f # fs))) =
     (cur @ csv_escape f) # map csv_escape fs"
proof -
  have "split_outside_quotes (CHR '';'') False cur (join [CHR '';''] (csv_escape f # map csv_escape fs))
        = (cur @ csv_escape f) # map csv_escape fs"
  proof (rule split_join)
    fix p cur rest
    assume "p \<in> set (csv_escape f # map csv_escape fs)"
    then obtain q where "p = csv_escape q"
      by auto
    then show "split_outside_quotes (CHR '';'') False cur (p @ rest) =
               split_outside_quotes (CHR '';'') False (cur @ p) rest"
      by (simp add: split_escaped)
  qed simp
  then show ?thesis
    by simp
qed

lemma line_passes:
  "split_outside_quotes (CHR 0x0A) False cur (join '';'' (map csv_escape fs) @ rest) =
   split_outside_quotes (CHR 0x0A) False (cur @ join '';'' (map csv_escape fs)) rest"
proof (induction fs arbitrary: cur rule: induct_list012)
  case 1 show ?case by simp
next
  case (2 x) show ?case by (simp add: split_escaped)
next
  case (3 x y zs)
  have "split_outside_quotes (CHR 0x0A) False cur (join '';'' (map csv_escape (x # y # zs)) @ rest) =
        split_outside_quotes (CHR 0x0A) False (cur @ csv_escape x)
          (CHR '';'' # join '';'' (map csv_escape (y # zs)) @ rest)"
    using split_escaped [of "CHR 0x0A" cur x] by simp
  also have "\<dots> = split_outside_quotes (CHR 0x0A) False (cur @ csv_escape x @ '';'')
          (join '';'' (map csv_escape (y # zs)) @ rest)"
    by simp
  also have "\<dots> = split_outside_quotes (CHR 0x0A) False
          (cur @ csv_escape x @ '';'' @ join '';'' (map csv_escape (y # zs))) rest"
    using "3.IH"(2) [of "cur @ csv_escape x @ '';''"] by simp
  finally show ?case by simp
qed

lemma unquote_escape: "unquote_field (csv_escape s) = s"
  by (cases s) (auto simp: unquote_field_def csv_escape_def collapse_replace butlast_append)

lemma parse_csv_line_escaped:
  "fs \<noteq> [] \<Longrightarrow> parse_csv_line (join '';'' (map csv_escape fs)) = fs"
proof -
  assume "fs \<noteq> []"
  then obtain f gs where fs: "fs = f # gs"
    by (cases fs) auto
  have "map unquote_field (map csv_escape fs) = fs"
    by (induction fs) (simp_all add: unquote_escape)
  then show ?thesis
    using split_line [of "[]" f gs] by (simp add: parse_csv_line_def fs)
qed

lemma csv_line_escaped:
  "csv_line env r = join '';'' (map csv_escape (map (\<lambda>f. js_String env (js_coalesce f (JStr []))) r))"
proof -
  have "csv_field env = (\<lambda>f. csv_escape (js_String env (js_coalesce f (JStr []))))"
    by (rule ext) (simp add: csv_field_def)
  then show ?thesis
    by (simp add: csv_line_def comp_def)
qed

lemma parse_csv_line_csv_line:
  "r \<noteq> [] \<Longrightarrow> parse_csv_line (csv_line env r) = map (\<lambda>f. js_String env (js_coalesce f (JStr []))) r"
  unfolding csv_line_escaped by (rule parse_csv_line_escaped) simp

lemma csv_lines_join:
  "rows \<noteq> [] \<Longrightarrow> csv_lines (join [CHR 0x0A] (map (csv_line env) rows)) = map (csv_line env) rows"
proof -
  assume "rows \<noteq> []"
  then obtain r rs where rows: "rows = r # rs"
    by (cases rows) auto
  have "split_outside_quotes (CHR 0x0A) False [] (join [CHR 0x0A] (csv_line env r # map (csv_line env) rs))
        = ([] @ csv_line env r) # map (csv_line env) rs"
  proof (rule split_join)
    fix p cur rest
    assume "p \<in> set (csv_line env r # map (csv_line env) rs)"
    then obtain q where "p = csv_line env q"
      by auto
    then show "split_outside_quotes (CHR 0x0A) False cur (p @ rest) =
               split_outside_quotes (CHR 0x0A) False (cur @ p) rest"
      unfolding csv_line_escaped by (simp only: line_passes)
  qed simp
  then show ?thesis
    by (simp add: csv_lines_def rows)
qed

lemma parse_csv_join:
  "rows \<noteq> [] \<Longrightarrow> list_all (\<lambda>r. r \<noteq> []) rows \<Longrightarrow>
   parse_csv (join [CHR 0x0A] (map (csv_line env) rows)) =
     map (map (\<lambda>f. js_String env (js_coalesce f (JStr [])))) rows"
  by (simp add: parse_csv_def csv_lines_join parse_csv_line_csv_line list_all_iff)

subsection \<open>The rows the exporter builds and the text it emits\<close>

lemma csv_row_length: "csv_row env meta p = Inr row \<Longrightarrow> length row = 10"
  by (auto simp: csv_row_def Let_def split: if_splits)

lemma push_rows_nonempty:
  "push_rows env meta ps rows0 = Inr rows \<Longrightarrow> rows0 \<noteq> [] \<Longrightarrow>
   list_all (\<lambda>r. r \<noteq> []) rows0 \<Longrightarrow> rows \<noteq> [] \<and> list_all (\<lambda>r. r \<noteq> []) rows"
proof (induction ps arbitrary: rows0)
  case Nil
  then show ?case by simp
next
  case (Cons p ps)
  from Cons.prems(1) obtain row where row: "csv_row env meta p = Inr row"
    and rest: "push_rows env meta ps (rows0 @ [row]) = Inr rows"
    by (auto split: sum.splits)
  have "row \<noteq> []"
    using csv_row_length [OF row] by auto
  then show ?case
    using Cons.IH [OF rest] Cons.prems(3) by simp
qed

lemma export_content:
  assumes "fst (exportHistoryCSV env ls stamp cache) = Inr (Some d)"
    and "lastHistorySeries cache = Some series" and "lastHistoryMeta cache = Some meta"
    and "push_rows env meta series [csv_header] = Inr rows"
  shows "content d = join [CHR 0x0A] (map (csv_line env) rows)"
  using assms
  by (auto simp: exportHistoryCSV_def Let_def split: if_splits sum.splits)

text \<open>
  C10 (CSV quoting round-trip): with \<open>s\<close> the string form of a field, the emitted field
  is \<open>s\<close> between double quotes with every double quote of \<open>s\<close> doubled if and only if
  \<open>s\<close> contains a double quote, the separator \<open>;\<close> or a newline, and is \<open>s\<close> itself
  otherwise. Hence splitting the line emitted for a non-empty row at the separators
  outside quotes and collapsing the doubled quotes of the quoted fields gives back
  exactly the string forms of the fields of that row. And for the file
  \<open>exportHistoryCSV\<close> offers: its lines, taken at the newlines outside quotes, are the
  lines emitted for the rows the exporter built, one line per row in their order, and
  reading each line back gives the string forms of the fields of its row.
\<close>

theorem csv_quoting_roundtrip:
  "(let s = js_String env (js_coalesce field (JStr []))
    in (csv_field env field = [CHR 0x22] @ replace_quotes s @ [CHR 0x22]) =
         (CHR 0x22 \<in> set s \<or> CHR '';'' \<in> set s \<or> CHR 0x0A \<in> set s) \<and>
       (csv_field env field = s) =
         (\<not> (CHR 0x22 \<in> set s \<or> CHR '';'' \<in> set s \<or> CHR 0x0A \<in> set s)) \<and>
       collapse_quotes (replace_quotes s) = s) \<and>
   (row \<noteq> [] \<longrightarrow>
      parse_csv_line (csv_line env row) =
        map (\<lambda>f. js_String env (js_coalesce f (JStr []))) row) \<and>
   (fst (exportHistoryCSV env ls stamp cache) = Inr (Some d) \<and>
    lastHistorySeries cache = Some series \<and> lastHistoryMeta cache = Some meta \<and>
    push_rows env meta series [csv_header] = Inr rows \<longrightarrow>
      csv_lines (content d) = map (csv_line env) rows \<and>
      map parse_csv_line (csv_lines (content d)) =
        map (map (\<lambda>f. js_String env (js_coalesce f (JStr [])))) rows)"
proof -
  have plain: "s \<noteq> [CHR 0x22] @ replace_quotes s @ [CHR 0x22]" for s
  proof
    assume "s = [CHR 0x22] @ replace_quotes s @ [CHR 0x22]"
    then have "length s = length ([CHR 0x22] @ replace_quotes s @ [CHR 0x22])"
      by simp
    moreover have "length s \<le> length (replace_quotes s)"
      by (induction s) (simp_all add: replace_quotes_def)
    ultimately show False
      by simp
  qed
  have quoting: "let s = js_String env (js_coalesce field (JStr []))
    in (csv_field env field = [CHR 0x22] @ replace_quotes s @ [CHR 0x22]) =
         (CHR 0x22 \<in> set s \<or> CHR '';'' \<in> set s \<or> CHR 0x0A \<in> set s) \<and>
       (csv_field env field = s) =
         (\<not> (CHR 0x22 \<in> set s \<or> CHR '';'' \<in> set s \<or> CHR 0x0A \<in> set s)) \<and>
       collapse_quotes (replace_quotes s) = s"
    using plain [of "js_String env (js_coalesce field (JStr []))"]
      plain [of "js_String env (js_coalesce field (JStr []))", symmetric]
    by (auto simp: Let_def csv_field_def csv_escape_def collapse_replace)
  have line: "row \<noteq> [] \<longrightarrow>
      parse_csv_line (csv_line env row) =
        map (\<lambda>f. js_String env (js_coalesce f (JStr []))) row"
    by (simp add: parse_csv_line_csv_line)
  have whole: "fst (exportHistoryCSV env ls stamp cache) = Inr (Some d) \<and>
    lastHistorySeries cache = Some series \<and> lastHistoryMeta cache = Some meta \<and>
    push_rows env meta series [csv_header] = Inr rows \<longrightarrow>
      csv_lines (content d) = map (csv_line env) rows \<and>
      map parse_csv_line (csv_lines (content d)) =
        map (map (\<lambda>f. js_String env (js_coalesce f (JStr [])))) rows"
  proof (intro impI)
    assume h: "fst (exportHistoryCSV env ls stamp cache) = Inr (Some d) \<and>
      lastHistorySeries cache = Some series \<and> lastHistoryMeta cache = Some meta \<and>
      push_rows env meta series [csv_header] = Inr rows"
    then have c: "content d = join [CHR 0x0A] (map (csv_line env) rows)"
      using export_content [of env ls stamp cache d series meta rows] by blast
    have ne: "rows \<noteq> [] \<and> list_all (\<lambda>r. r \<noteq> []) rows"
      using h push_rows_nonempty [of env meta series "[csv_header]" rows]
      by (simp add: csv_header_def)
    have l: "csv_lines (content d) = map (csv_line env) rows"
      unfolding c using ne by (simp add: csv_lines_join)
    have "parse_csv (content d) = map (map (\<lambda>f. js_String env (js_coalesce f (JStr [])))) rows"
      unfolding c using ne by (simp add: parse_csv_join)
    then show "csv_lines (content d) = map (csv_line env) rows \<and>
      map parse_csv_line (csv_lines (content d)) =
        map (map (\<lambda>f. js_String env (js_coalesce f (JStr [])))) rows"
      using l by (simp add: parse_csv_def)
  qed
  show ?thesis
    using quoting line whole by blast
qed

lemma replace_unsafe_example: "replace_unsafe ''S;1'' = ''S_1''"
  by code_simp

lemma isAdmin_example:
  "isAdmin (Some [''isLoggedIn'' \<mapsto> ''true'', ''userRole'' \<mapsto> ''Admin''])"
  "\<not> isAdmin (Some [''isLoggedIn'' \<mapsto> ''true'', ''userRole'' \<mapsto> ''Gast''])"
  by (simp_all add: isAdmin_def getItem_or_empty_def toLowerCase_Admin toLowerCase_Gast)

theorem csv_quoting_roundtrip_witness:
  "[JStr ''a;b'', JNull, JStr (''say '' @ [CHR 0x22] @ ''hi'' @ [CHR 0x22]), JNum 21.5, JStr ''R1''] \<noteq> [] \<and>
   csv_line \<lparr> numToString = (\<lambda>r. if r = 12 then ''12'' else ''21.5''), encodeURIComponent = (\<lambda>s. s), parseInt = (\<lambda>s. Some 0), toLocaleString = (\<lambda>v. Some ''01.11.2026, 10:00:00'') \<rparr>
     [JStr ''a;b'', JNull, JStr (''say '' @ [CHR 0x22] @ ''hi'' @ [CHR 0x22]), JNum 21.5, JStr ''R1'']
     = [CHR 0x22] @ ''a;b'' @ [CHR 0x22] @ '';;'' @ [CHR 0x22] @ ''say '' @ [CHR 0x22, CHR 0x22] @ ''hi'' @ [CHR 0x22, CHR 0x22, CHR 0x22] @ '';21.5;R1'' \<and>
   parse_csv_line ([CHR 0x22] @ ''a;b'' @ [CHR 0x22] @ '';;'' @ [CHR 0x22] @ ''say '' @ [CHR 0x22, CHR 0x22] @ ''hi'' @ [CHR 0x22, CHR 0x22, CHR 0x22] @ '';21.5;R1'')
     = [''a;b'', [], ''say '' @ [CHR 0x22] @ ''hi'' @ [CHR 0x22], ''21.5'', ''R1''] \<and>
   fst (exportHistoryCSV
     \<lparr> numToString = (\<lambda>r. if r = 12 then ''12'' else ''21.5''), encodeURIComponent = (\<lambda>s. s), parseInt = (\<lambda>s. Some 0), toLocaleString = (\<lambda>v. Some ''01.11.2026, 10:00:00'') \<rparr>
     (Some [''isLoggedIn'' \<mapsto> ''true'', ''userRole'' \<mapsto> ''Admin''])
     ''2026-11-01-10-00-00''
     (\<lparr> lastHistorySeries = Some [JObj [(''ts'', JStr ''t1''), (''avg'', JNum 21.5), (''n'', JNum 12)]], lastHistoryMeta = Some (\<lparr> deviceId_h = JStr ''dev1'', sensorName_h = JStr ''S;1'', room_h = JStr ''R1'', metric_h = ''temp'', range_h = ''day'', unit_h = ''C'', labels_h = [''10:00''] \<rparr>) \<rparr>))
     = Inr (Some \<lparr> filename = ''history_S_1_temp_day_2026-11-01-10-00-00.csv'', content = ''Zeitstempel (ISO);Zeit (Lokal Wien);Wert;Anzahl;Messgr'' @ [CHR 0xF6, CHR 0xDF] @ ''e;Einheit;Sensor;Raum;Device ID;Zeitraum'' @ [CHR 0x0A] @ ''t1;01.11.2026, 10:00:00;21.5;12;temp;C;'' @ [CHR 0x22] @ ''S;1'' @ [CHR 0x22] @ '';R1;dev1;day'' \<rparr>) \<and>
   map parse_csv_line (csv_lines (''Zeitstempel (ISO);Zeit (Lokal Wien);Wert;Anzahl;Messgr'' @ [CHR 0xF6, CHR 0xDF] @ ''e;Einheit;Sensor;Raum;Device ID;Zeitraum'' @ [CHR 0x0A] @ ''t1;01.11.2026, 10:00:00;21.5;12;temp;C;'' @ [CHR 0x22] @ ''S;1'' @ [CHR 0x22] @ '';R1;dev1;day''))
     = [[''Zeitstempel (ISO)'', ''Zeit (Lokal Wien)'', ''Wert'', ''Anzahl'', ''Messgr'' @ [CHR 0xF6, CHR 0xDF] @ ''e'', ''Einheit'', ''Sensor'', ''Raum'', ''Device ID'', ''Zeitraum''],
        [''t1'', ''01.11.2026, 10:00:00'', ''21.5'', ''12'', ''temp'', ''C'', ''S;1'', ''R1'', ''dev1'', ''day'']]"
proof -
  let ?env = "\<lparr> numToString = (\<lambda>r. if r = 12 then ''12'' else ''21.5''), encodeURIComponent = (\<lambda>s. s), parseInt = (\<lambda>s. Some 0), toLocaleString = (\<lambda>v. Some ''01.11.2026, 10:00:00'') \<rparr>"
  let ?row = "[JStr ''a;b'', JNull, JStr (''say '' @ [CHR 0x22] @ ''hi'' @ [CHR 0x22]), JNum 21.5, JStr ''R1'']"
  let ?cache = "\<lparr> lastHistorySeries = Some [JObj [(''ts'', JStr ''t1''), (''avg'', JNum 21.5), (''n'', JNum 12)]], lastHistoryMeta = Some (\<lparr> deviceId_h = JStr ''dev1'', sensorName_h = JStr ''S;1'', room_h = JStr ''R1'', metric_h = ''temp'', range_h = ''day'', unit_h = ''C'', labels_h = [''10:00''] \<rparr>) \<rparr>"
  let ?d = "\<lparr> filename = ''history_S_1_temp_day_2026-11-01-10-00-00.csv'', content = ''Zeitstempel (ISO);Zeit (Lokal Wien);Wert;Anzahl;Messgr'' @ [CHR 0xF6, CHR 0xDF] @ ''e;Einheit;Sensor;Raum;Device ID;Zeitraum'' @ [CHR 0x0A] @ ''t1;01.11.2026, 10:00:00;21.5;12;temp;C;'' @ [CHR 0x22] @ ''S;1'' @ [CHR 0x22] @ '';R1;dev1;day'' \<rparr>"
  have ne: "?row \<noteq> []"
    by simp
  have line: "csv_line ?env ?row = [CHR 0x22] @ ''a;b'' @ [CHR 0x22] @ '';;'' @ [CHR 0x22] @ ''say '' @ [CHR 0x22, CHR 0x22] @ ''hi'' @ [CHR 0x22, CHR 0x22, CHR 0x22] @ '';21.5;R1''"
    by (simp add: csv_line_def csv_field_def csv_escape_def replace_quotes_def js_coalesce_def)
  have "parse_csv_line (csv_line ?env ?row) =
        map (\<lambda>f. js_String ?env (js_coalesce f (JStr []))) ?row"
    using csv_quoting_roundtrip [of ?env JNull ?row, THEN conjunct2, THEN conjunct1] ne by blast
  then have recovered: "parse_csv_line ([CHR 0x22] @ ''a;b'' @ [CHR 0x22] @ '';;'' @ [CHR 0x22] @ ''say '' @ [CHR 0x22, CHR 0x22] @ ''hi'' @ [CHR 0x22, CHR 0x22, CHR 0x22] @ '';21.5;R1'') = [''a;b'', [], ''say '' @ [CHR 0x22] @ ''hi'' @ [CHR 0x22], ''21.5'', ''R1'']"
    unfolding line by (simp add: js_coalesce_def)
  have rows: "push_rows ?env (\<lparr> deviceId_h = JStr ''dev1'', sensorName_h = JStr ''S;1'', room_h = JStr ''R1'', metric_h = ''temp'', range_h = ''day'', unit_h = ''C'', labels_h = [''10:00''] \<rparr>)
        [JObj [(''ts'', JStr ''t1''), (''avg'', JNum 21.5), (''n'', JNum 12)]] [csv_header] =
      Inr [csv_header,
           [JStr ''t1'', JStr ''01.11.2026, 10:00:00'', JNum 21.5, JNum 12, JStr ''temp'',
            JStr ''C'', JStr ''S;1'', JStr ''R1'', JStr ''dev1'', JStr ''day'']]"
    by (simp add: csv_row_def js_or_def)
  have ex: "fst (exportHistoryCSV ?env (Some [''isLoggedIn'' \<mapsto> ''true'', ''userRole'' \<mapsto> ''Admin''])
        ''2026-11-01-10-00-00'' ?cache) = Inr (Some ?d)"
    by (simp add: exportHistoryCSV_def isAdmin_example csv_row_def safeName_def js_or_def
        replace_unsafe_example csv_line_def csv_field_def csv_escape_def replace_quotes_def
        js_coalesce_def csv_header_def)
  have hyp: "fst (exportHistoryCSV ?env (Some [''isLoggedIn'' \<mapsto> ''true'', ''userRole'' \<mapsto> ''Admin''])
        ''2026-11-01-10-00-00'' ?cache) = Inr (Some ?d) \<and>
      lastHistorySeries ?cache = Some [JObj [(''ts'', JStr ''t1''), (''avg'', JNum 21.5), (''n'', JNum 12)]] \<and>
      lastHistoryMeta ?cache = Some (\<lparr> deviceId_h = JStr ''dev1'', sensorName_h = JStr ''S;1'', room_h = JStr ''R1'', metric_h = ''temp'', range_h = ''day'', unit_h = ''C'', labels_h = [''10:00''] \<rparr>) \<and>
      push_rows ?env (\<lparr> deviceId_h = JStr ''dev1'', sensorName_h = JStr ''S;1'', room_h = JStr ''R1'', metric_h = ''temp'', range_h = ''day'', unit_h = ''C'', labels_h = [''10:00''] \<rparr>)
        [JObj [(''ts'', JStr ''t1''), (''avg'', JNum 21.5), (''n'', JNum 12)]] [csv_header] =
      Inr [csv_header,
           [JStr ''t1'', JStr ''01.11.2026, 10:00:00'', JNum 21.5, JNum 12, JStr ''temp'',
            JStr ''C'', JStr ''S;1'', JStr ''R1'', JStr ''dev1'', JStr ''day'']]"
    using ex rows by simp
  have "map parse_csv_line (csv_lines (content ?d)) =
        map (map (\<lambda>f. js_String ?env (js_coalesce f (JStr []))))
          [csv_header,
           [JStr ''t1'', JStr ''01.11.2026, 10:00:00'', JNum 21.5, JNum 12, JStr ''temp'',
            JStr ''C'', JStr ''S;1'', JStr ''R1'', JStr ''dev1'', JStr ''day'']]"
    using csv_quoting_roundtrip [where env = ?env and ls = "Some [''isLoggedIn'' \<mapsto> ''true'', ''userRole'' \<mapsto> ''Admin'']"
        and stamp = "''2026-11-01-10-00-00''" and cache = ?cache and d = ?d
        and series = "[JObj [(''ts'', JStr ''t1''), (''avg'', JNum 21.5), (''n'', JNum 12)]]"
        and meta = "\<lparr> deviceId_h = JStr ''dev1'', sensorName_h = JStr ''S;1'', room_h = JStr ''R1'', metric_h = ''temp'', range_h = ''day'', unit_h = ''C'', labels_h = [''10:00''] \<rparr>"
        and rows = "[csv_header,
           [JStr ''t1'', JStr ''01.11.2026, 10:00:00'', JNum 21.5, JNum 12, JStr ''temp'',
            JStr ''C'', JStr ''S;1'', JStr ''R1'', JStr ''dev1'', JStr ''day'']]",
        THEN conjunct2, THEN conjunct2, rule_format, OF hyp]
    by (rule conjunct2)
  then have lines_ok: "map parse_csv_line (csv_lines (''Zeitstempel (ISO);Zeit (Lokal Wien);Wert;Anzahl;Messgr'' @ [CHR 0xF6, CHR 0xDF] @ ''e;Einheit;Sensor;Raum;Device ID;Zeitraum'' @ [CHR 0x0A] @ ''t1;01.11.2026, 10:00:00;21.5;12;temp;C;'' @ [CHR 0x22] @ ''S;1'' @ [CHR 0x22] @ '';R1;dev1;day'')) =
        [[''Zeitstempel (ISO)'', ''Zeit (Lokal Wien)'', ''Wert'', ''Anzahl'', ''Messgr'' @ [CHR 0xF6, CHR 0xDF] @ ''e'', ''Einheit'', ''Sensor'', ''Raum'', ''Device ID'', ''Zeitraum''],
         [''t1'', ''01.11.2026, 10:00:00'', ''21.5'', ''12'', ''temp'', ''C'', ''S;1'', ''R1'', ''dev1'', ''day'']]"
    by (simp add: csv_header_def js_coalesce_def)
  show ?thesis
    using ne line recovered ex lines_ok by blast
qed

section \<open>Results about the CSV export\<close>






end
